theory Spec2Isabelle
  imports Complex_Main
begin

section \<open>Numbers\<close>

text \<open>
  The sketch computes with JavaScript numbers. They are modelled as mathematical reals:
  the rounding of IEEE doubles is outside this model, and so are \<open>NaN\<close> and the infinite
  values, except as results of the two number parsers of the startup parameters. Where
  the source divides, the divisor is shown to be non-zero by the hypotheses of the
  theorem that uses it.
\<close>

definition js_trunc :: "real \<Rightarrow> int" where
  \<comment> \<open>rounding toward zero, the quotient that the remainder operator uses\<close>
  "js_trunc q = (if 0 \<le> q then \<lfloor>q\<rfloor> else \<lceil>q\<rceil>)"

definition js_rem :: "real \<Rightarrow> real \<Rightarrow> real" where
  \<comment> \<open>the operator \<open>a % b\<close>: the result takes the sign of the dividend\<close>
  "js_rem a b = a - b * of_int (js_trunc (a / b))"

definition lerp :: "real \<Rightarrow> real \<Rightarrow> real \<Rightarrow> real" where
  \<comment> \<open>p5 \<open>lerp(start, stop, amt)\<close>\<close>
  "lerp start stop amt = amt * (stop - start) + start"

definition map_range :: "real \<Rightarrow> real \<Rightarrow> real \<Rightarrow> real \<Rightarrow> real \<Rightarrow> real" where
  \<comment> \<open>p5 \<open>map(n, start1, stop1, start2, stop2)\<close>, without clamping\<close>
  "map_range n start1 stop1 start2 stop2 =
     (n - start1) / (stop1 - start1) * (stop2 - start2) + start2"

section \<open>Breath clock\<close>

text \<open>
  Lines 73 to 77 of \<open>draw\<close>. \<open>t\<close> is \<open>millis() / 1000.0\<close>, the seconds since the sketch
  started, and \<open>bs\<close> is \<open>BREATH_SECONDS\<close>.
\<close>

definition period :: "real \<Rightarrow> real" where
  "period bs = bs * 2"

definition phase :: "real \<Rightarrow> real \<Rightarrow> real" where
  "phase bs t = js_rem t (period bs) / period bs"

definition tri :: "real \<Rightarrow> real \<Rightarrow> real" where
  "tri bs t = (if phase bs t < 0.5 then phase bs t * 2.0 else 2.0 - phase bs t * 2.0)"

definition exhale :: "real \<Rightarrow> real \<Rightarrow> real" where
  "exhale bs t = 1.0 - tri bs t"

definition alpha :: "real \<Rightarrow> real" where
  \<comment> \<open>line 100: the fill opacity of a particle, from the triangle value\<close>
  "alpha tr = 200 + 55 * tr"

section \<open>Vectors and particles\<close>

text \<open>
  A \<open>p5.Vector\<close> of the sketch has two coordinates in use, \<open>x\<close> and \<open>y\<close> (fields \<open>vx\<close>
  and \<open>vy\<close> here). \<open>mult\<close> and \<open>add\<close> change the receiver in the source; the receivers
  are the fresh vectors returned by \<open>createVector\<close> and \<open>flowForce\<close>, never a particle's
  own vector, so the model returns the new value. The static \<open>p5.Vector.add\<close> returns a
  new vector and leaves its arguments as they are. The field \<open>psize\<close> of a particle is
  the field \<open>size\<close> of the source.
\<close>

record vector =
  vx :: real
  vy :: real

record particle =
  home :: vector
  pos :: vector
  psize :: real
  theta :: real
  rand :: real

definition createVector :: "real \<Rightarrow> real \<Rightarrow> vector" where
  "createVector a b = \<lparr>vx = a, vy = b\<rparr>"

definition mult :: "vector \<Rightarrow> real \<Rightarrow> vector" where
  "mult v n = \<lparr>vx = vx v * n, vy = vy v * n\<rparr>"

definition add :: "vector \<Rightarrow> vector \<Rightarrow> vector" where
  "add v w = \<lparr>vx = vx v + vx w, vy = vy v + vy w\<rparr>"

text \<open>
  The Euclidean distance of two points. The source does not compute it: it is the measure
  of "closer to home" in the statements about the motion.
\<close>

definition dist_v :: "vector \<Rightarrow> vector \<Rightarrow> real" where
  "dist_v a b = sqrt ((vx a - vx b)\<^sup>2 + (vy a - vy b)\<^sup>2)"

section \<open>Motion tuning constants\<close>

definition EXHALE_SPREAD :: real where "EXHALE_SPREAD = 28"
definition EXHALE_JITTER :: real where "EXHALE_JITTER = 0.9"
definition INHALE_TIGHTNESS :: real where "INHALE_TIGHTNESS = 0.18"
definition DRIFT_NOISE_SCALE :: real where "DRIFT_NOISE_SCALE = 0.002"
definition DRIFT_NOISE_STRENGTH :: real where "DRIFT_NOISE_STRENGTH = 0.9"
definition TWO_PI :: real where "TWO_PI = 2 * pi"

section \<open>Flow field\<close>

text \<open>
  \<open>noise\<close> is the platform's coherent noise \<open>noise(x, y, z)\<close>; it is a parameter of the
  model. \<open>flow_ang\<close> and \<open>flow_magnitude\<close> are the locals \<open>ang\<close> and \<open>magnitude\<close> of
  \<open>flowForce\<close> (lines 111 to 118).
\<close>

type_synonym noise_source = "real \<Rightarrow> real \<Rightarrow> real \<Rightarrow> real"

definition flow_ang :: "noise_source \<Rightarrow> real \<Rightarrow> real \<Rightarrow> real \<Rightarrow> real" where
  "flow_ang noise x y t =
     (let s = 0.0013;
          nx = noise (x * s) (y * s) (t * 0.07)
      in map_range nx 0 1 (- pi) pi)"

definition flow_magnitude :: "noise_source \<Rightarrow> real \<Rightarrow> real \<Rightarrow> real \<Rightarrow> real" where
  "flow_magnitude noise x y t =
     (let s = 0.0013;
          ny = noise ((x + 999) * s) ((y - 777) * s) (t * 0.07)
      in map_range ny 0 1 0.2 1.0)"

definition flowForce :: "noise_source \<Rightarrow> real \<Rightarrow> real \<Rightarrow> real \<Rightarrow> vector" where
  "flowForce noise x y t =
     (let ang = flow_ang noise x y t;
          magnitude = flow_magnitude noise x y t
      in mult (createVector (cos ang) (sin ang)) magnitude)"

section \<open>Motion integrator\<close>

text \<open>
  The body of the loop over the particles in \<open>draw\<close> (lines 82 to 97), for one particle
  \<open>p\<close>, at time \<open>t\<close> and exhale value \<open>ex\<close>.
\<close>

definition drift_ang :: "noise_source \<Rightarrow> real \<Rightarrow> particle \<Rightarrow> real" where
  "drift_ang noise t p =
     (let n = noise (vx (home p) * DRIFT_NOISE_SCALE) (vy (home p) * DRIFT_NOISE_SCALE) (t * 0.15)
      in theta p + n * TWO_PI)"

definition spread :: "particle \<Rightarrow> real" where
  "spread p = EXHALE_SPREAD * (0.4 + EXHALE_JITTER * rand p)"

definition radial_drift :: "noise_source \<Rightarrow> real \<Rightarrow> real \<Rightarrow> particle \<Rightarrow> vector" where
  "radial_drift noise t ex p =
     (let ang = drift_ang noise t p
      in mult (createVector (cos ang) (sin ang)) (spread p * ex))"

definition flow_push :: "noise_source \<Rightarrow> real \<Rightarrow> real \<Rightarrow> particle \<Rightarrow> vector" where
  "flow_push noise t ex p =
     mult (flowForce noise (vx (home p)) (vy (home p)) t) (DRIFT_NOISE_STRENGTH * ex)"

definition target :: "noise_source \<Rightarrow> real \<Rightarrow> real \<Rightarrow> particle \<Rightarrow> vector" where
  "target noise t ex p =
     (let drift = radial_drift noise t ex p;
          f = flow_push noise t ex p;
          drift = add drift f
      in add (home p) drift)"

definition easing :: "real \<Rightarrow> real" where
  "easing ex = lerp (1.0 - INHALE_TIGHTNESS) 0.08 ex"

definition move :: "noise_source \<Rightarrow> real \<Rightarrow> real \<Rightarrow> particle \<Rightarrow> particle" where
  "move noise t ex p =
     (let tg = target noise t ex p;
          e = easing ex
      in p\<lparr>pos := \<lparr>vx = lerp (vx (pos p)) (vx tg) e, vy = lerp (vy (pos p)) (vy tg) e\<rparr>\<rparr>)"

section \<open>Rendering of the particles\<close>

text \<open>
  Lines 100 to 102: each particle is drawn as a circle at its position, filled with the
  foreground grey \<open>FG\<close> at the opacity \<open>alpha\<close>. A frame's drawing is the list of these
  circles.
\<close>

definition FG :: real where "FG = 255"

record circle_cmd =
  cx :: real
  cy :: real
  diameter :: real
  fill_grey :: real
  fill_alpha :: real

definition draw_circle :: "real \<Rightarrow> particle \<Rightarrow> circle_cmd" where
  "draw_circle tr p =
     \<lparr>cx = vx (pos p), cy = vy (pos p), diameter = psize p,
      fill_grey = FG, fill_alpha = alpha tr\<rparr>"

text \<open>
  The loop of \<open>draw\<close> over the particle list (lines 73 to 103): every particle is moved,
  then drawn at its new position. The result is the updated list and the circles drawn.
\<close>

definition draw_particles ::
  "noise_source \<Rightarrow> real \<Rightarrow> real \<Rightarrow> particle list \<Rightarrow> particle list \<times> circle_cmd list" where
  "draw_particles noise bs t ps =
     (let tr = tri bs t;
          ex = exhale bs t;
          ps' = map (move noise t ex) ps
      in (ps', map (draw_circle tr) ps'))"

section \<open>Decimal text of a number\<close>

text \<open>
  The text that JavaScript gives a non-negative integer when it is joined to a string or
  passed to \<open>String\<close>: its decimal digits, without leading zeros.
\<close>

definition digit_char :: "nat \<Rightarrow> char" where
  "digit_char d =
     (if d = 0 then CHR ''0'' else if d = 1 then CHR ''1'' else if d = 2 then CHR ''2''
      else if d = 3 then CHR ''3'' else if d = 4 then CHR ''4'' else if d = 5 then CHR ''5''
      else if d = 6 then CHR ''6'' else if d = 7 then CHR ''7'' else if d = 8 then CHR ''8''
      else CHR ''9'')"

fun dec :: "nat \<Rightarrow> string" where
  "dec n = (if n < 10 then [digit_char n] else dec (n div 10) @ [digit_char (n mod 10)])"

declare dec.simps [simp del]

text \<open>
  p5 \<open>nf(num, left)\<close> for a non-negative integer: its digits, padded on the left with
  zeros to at least \<open>left\<close> places. A longer number is not shortened.
\<close>

definition nf :: "nat \<Rightarrow> nat \<Rightarrow> string" where
  "nf num left = replicate (left - length (dec num)) CHR ''0'' @ dec num"

section \<open>Countdown HUD\<close>

definition HUD_FADE :: real where "HUD_FADE = 140"

record text_cmd =
  content :: string
  text_x :: real
  text_y :: real
  text_grey :: real
  text_alpha :: real

text \<open>
  \<open>drawCountdown\<close> (lines 120 to 131). Its only caller passes a number that is never
  negative, so \<open>floor\<close> gives natural numbers here. The result is the text drawn, its
  place and its fill.
\<close>

definition drawCountdown :: "real \<Rightarrow> nat \<Rightarrow> nat \<Rightarrow> text_cmd" where
  "drawCountdown remainingSec width height =
     (let mm = nat \<lfloor>remainingSec / 60\<rfloor>;
          ss = nat \<lfloor>js_rem remainingSec 60\<rfloor>;
          t = nf mm 2 @ '':'' @ nf ss 2
      in \<lparr>content = t, text_x = real width - 14, text_y = real height - 12,
          text_grey = FG, text_alpha = HUD_FADE\<rparr>)"

text \<open>
  Lines 105 to 108 of \<open>draw\<close>: \<open>rs\<close> is \<open>RUN_SECONDS\<close> (\<open>None\<close> for \<open>null\<close>), \<open>ms\<close> is
  \<open>millis()\<close>. Nothing is drawn without a run time.
\<close>

definition remaining :: "real \<Rightarrow> real \<Rightarrow> real \<Rightarrow> real" where
  "remaining rs ms startMillis = max 0 (rs - (ms - startMillis) / 1000)"

definition draw_hud :: "real option \<Rightarrow> real \<Rightarrow> real \<Rightarrow> nat \<Rightarrow> nat \<Rightarrow> text_cmd option" where
  "draw_hud RUN_SECONDS ms startMillis width height =
     (case RUN_SECONDS of
        None \<Rightarrow> None
      | Some rs \<Rightarrow> Some (drawCountdown (remaining rs ms startMillis) width height))"

section \<open>The sketch's variables\<close>

text \<open>
  The global variables of the sketch (lines 11 to 18) and the canvas size \<open>width\<close>,
  \<open>height\<close> that p5 keeps. Two more fields record what the platform and the run add:
  \<open>drawn\<close> is the number of values taken from the random source so far, and \<open>builds\<close>
  counts the calls of \<open>buildTextParticles\<close>; the source has no variable for either.
  The offscreen buffer \<open>pg\<close> is made anew and read within one call of
  \<open>buildTextParticles\<close>, so it is a local value of that function here.
\<close>

record sketch =
  DISPLAY_TEXT :: string
  RUN_SECONDS :: "real option"
  BREATH_SECONDS :: real
  particles :: "particle list"
  lastBuildKey :: string
  startMillis :: real
  width :: nat
  height :: nat
  drawn :: nat
  builds :: nat

definition initial :: sketch where
  \<comment> \<open>the initial values of lines 11 to 18; the canvas is p5's default until \<open>setup\<close>\<close>
  "initial =
     \<lparr>DISPLAY_TEXT = ''56'', RUN_SECONDS = None, BREATH_SECONDS = 8, particles = [],
      lastBuildKey = '''', startMillis = 0, width = 100, height = 100, drawn = 0, builds = 0\<rparr>"

section \<open>Startup parameters\<close>

text \<open>
  The results of \<open>parseInt\<close> and \<open>parseFloat\<close> are numbers that may be \<open>NaN\<close> or infinite.
  A finite result is its mathematical value; a value beyond the range of doubles is
  infinite, so \<open>Number.isFinite\<close> can fail on a long run of digits.
\<close>

datatype js_number = NaN | Infinity | NegInfinity | Num real

definition isFinite :: "js_number \<Rightarrow> bool" where
  "isFinite n = (case n of Num v \<Rightarrow> True | _ \<Rightarrow> False)"

definition gt :: "js_number \<Rightarrow> real \<Rightarrow> bool" where
  \<comment> \<open>the comparison \<open>n > c\<close> with a finite \<open>c\<close>; it is false for \<open>NaN\<close>\<close>
  "gt n c = (case n of NaN \<Rightarrow> False | Infinity \<Rightarrow> True | NegInfinity \<Rightarrow> False | Num v \<Rightarrow> c < v)"

definition to_number :: "real \<Rightarrow> js_number" where
  \<comment> \<open>the number for a mathematical value: infinite from the rounding bound of doubles on\<close>
  "to_number v =
     (if \<bar>v\<bar> < 2 ^ 1024 - 2 ^ 970 then Num v else if 0 < v then Infinity else NegInfinity)"

text \<open>
  Strings are lists of code units below 256. \<open>is_space\<close> holds for the white space and
  line terminators in that range, which \<open>trim\<close> and the two parsers skip.
\<close>

definition is_space :: "char \<Rightarrow> bool" where
  "is_space c =
     (c \<in> {CHR 0x09, CHR 0x0A, CHR 0x0B, CHR 0x0C, CHR 0x0D, CHR 0x20, CHR 0xA0})"

definition trim :: "string \<Rightarrow> string" where
  "trim s = rev (dropWhile is_space (rev (dropWhile is_space s)))"

definition is_digit :: "char \<Rightarrow> bool" where
  "is_digit c = (c \<in> set ''0123456789'')"

definition digit_value :: "char \<Rightarrow> nat" where
  "digit_value c = of_char c - 48"

definition digits_value :: "string \<Rightarrow> nat" where
  "digits_value ds = foldl (\<lambda>a c. 10 * a + digit_value c) 0 ds"

definition is_sign :: "char \<Rightarrow> bool" where
  "is_sign c = (c = CHR ''+'' \<or> c = CHR ''-'')"

definition sign_of :: "string \<Rightarrow> real" where
  \<comment> \<open>\<open>-1\<close> when the text starts with a minus sign, else 1\<close>
  "sign_of s = (case s of [] \<Rightarrow> 1 | c # r \<Rightarrow> if c = CHR ''-'' then - 1 else 1)"

definition drop_sign :: "string \<Rightarrow> string" where
  "drop_sign s = (case s of [] \<Rightarrow> [] | c # r \<Rightarrow> if is_sign c then r else s)"

text \<open>
  \<open>parseInt(str, 10)\<close>: leading white space is skipped, then an optional sign, then the
  longest run of decimal digits is read; what follows is ignored. Without a digit the
  result is \<open>NaN\<close>.
\<close>

definition parseInt10 :: "string \<Rightarrow> js_number" where
  "parseInt10 str =
     (let s = dropWhile is_space str;
          z = takeWhile is_digit (drop_sign s)
      in if z = [] then NaN else to_number (sign_of s * real (digits_value z)))"

text \<open>
  \<open>parseFloat(str)\<close>: leading white space is skipped, then the longest prefix that is a
  decimal literal is read: an optional sign, then \<open>Infinity\<close> or digits with an optional
  fraction and an optional exponent. An \<open>e\<close> without digits after it is not part of the
  literal.
\<close>

definition pow10 :: "int \<Rightarrow> real" where
  "pow10 e = (if 0 \<le> e then 10 ^ nat e else 1 / 10 ^ nat (- e))"

definition exponent_of :: "string \<Rightarrow> int" where
  "exponent_of s =
     (case s of
        [] \<Rightarrow> 0
      | c # r \<Rightarrow>
          if c = CHR ''e'' \<or> c = CHR ''E'' then
            (let es = takeWhile is_digit (drop_sign r)
             in if es = [] then 0
                else if sign_of r < 0 then - int (digits_value es) else int (digits_value es))
          else 0)"

definition parseFloat :: "string \<Rightarrow> js_number" where
  "parseFloat str =
     (let s = dropWhile is_space str;
          u = drop_sign s
      in if take 8 u = ''Infinity'' then (if sign_of s < 0 then NegInfinity else Infinity)
         else
          (let ip = takeWhile is_digit u;
               r1 = dropWhile is_digit u;
               dot = (case r1 of [] \<Rightarrow> False | c # r \<Rightarrow> c = CHR ''.'');
               fp = (if dot then takeWhile is_digit (tl r1) else []);
               r2 = (if dot then dropWhile is_digit (tl r1) else r1)
           in if ip = [] \<and> fp = [] then NaN
              else to_number (sign_of s * real (digits_value (ip @ fp)) / 10 ^ length fp
                     * pow10 (exponent_of r2))))"

text \<open>
  \<open>getParams\<close> (lines 36 to 50). \<open>q\<close> is the query of the page's address as a list of
  names and decoded values; \<open>searchParams.get\<close> gives the first value of a name, or
  \<open>null\<close>.
\<close>

definition searchParams_get :: "(string \<times> string) list \<Rightarrow> string \<Rightarrow> string option" where
  "searchParams_get q name = map_of q name"

definition getParams :: "(string \<times> string) list \<Rightarrow> sketch \<Rightarrow> sketch" where
  "getParams q s0 =
     (let n = searchParams_get q ''num'';
          s1 = (case n of
                  None \<Rightarrow> s0
                | Some nv \<Rightarrow> if trim nv \<noteq> '''' then s0\<lparr>DISPLAY_TEXT := trim nv\<rparr> else s0);
          d = searchParams_get q ''dur'';
          s2 = (case d of
                  None \<Rightarrow> s1
                | Some dv \<Rightarrow>
                    (let sec = parseInt10 dv
                     in case sec of
                          Num v \<Rightarrow> if isFinite sec \<and> gt sec 0 then s1\<lparr>RUN_SECONDS := Some v\<rparr> else s1
                        | _ \<Rightarrow> s1));
          b = searchParams_get q ''breath'';
          s3 = (case b of
                  None \<Rightarrow> s2
                | Some bv \<Rightarrow>
                    (let sec = parseFloat bv
                     in case sec of
                          Num v \<Rightarrow> if isFinite sec \<and> gt sec 0.5 then s2\<lparr>BREATH_SECONDS := v\<rparr> else s2
                        | _ \<Rightarrow> s2))
      in s3)"

section \<open>Particle sampler\<close>

definition SAMPLE_STEP :: nat where "SAMPLE_STEP = 6"

text \<open>
  The random source is the sequence of values that \<open>Math.random\<close> returns, each in
  \<open>[0, 1)\<close>; \<open>k\<close> is the number of values taken so far. p5's \<open>random(min, max)\<close>,
  \<open>random(max)\<close> and \<open>random()\<close> scale one value each.
\<close>

type_synonym random_source = "nat \<Rightarrow> real"

definition random2 :: "real \<Rightarrow> real \<Rightarrow> real \<Rightarrow> real" where
  "random2 lo hi u = u * (hi - lo) + lo"

definition random1 :: "real \<Rightarrow> real \<Rightarrow> real" where
  "random1 hi u = u * hi"

text \<open>
  \<open>makeParticle\<close> (lines 186 to 195): one jitter value moves both coordinates of \<open>pos\<close>.
  It takes four random values, in the order of the source.
\<close>

definition makeParticle :: "random_source \<Rightarrow> nat \<Rightarrow> nat \<Rightarrow> nat \<Rightarrow> particle \<times> nat" where
  "makeParticle rng k x y =
     (let jitter = random2 (- 2) 2 (rng k)
      in (\<lparr>home = createVector (real x) (real y),
           pos = createVector (real x + jitter) (real y + jitter),
           psize = random2 1.6 2.4 (rng (k + 1)),
           theta = random1 TWO_PI (rng (k + 2)),
           rand = rng (k + 3)\<rparr>,
          k + 4))"

text \<open>
  The pixel array of the offscreen buffer holds four channel values for each pixel, row
  by row. A read beyond its end gives \<open>undefined\<close> in the source, and a comparison with
  \<open>undefined\<close> is false, so such a pixel is not lit.
\<close>

definition pixel_at :: "nat list \<Rightarrow> nat \<Rightarrow> nat option" where
  "pixel_at pixels i = (if i < length pixels then Some (pixels ! i) else None)"

definition lit :: "nat list \<Rightarrow> nat \<Rightarrow> nat \<Rightarrow> nat \<Rightarrow> bool" where
  "lit pixels pw x y =
     (let idx = 4 * (y * pw + x)
      in case (pixel_at pixels (idx + 0), pixel_at pixels (idx + 1),
               pixel_at pixels (idx + 2), pixel_at pixels (idx + 3)) of
           (Some r, Some g, Some b, Some a) \<Rightarrow> a > 10 \<and> (r + g + b) > 500
         | _ \<Rightarrow> False)"

text \<open>
  The two loops of \<open>buildTextParticles\<close> (lines 170 to 181): \<open>scan_row\<close> is the inner
  loop over \<open>x\<close> in the row \<open>y\<close>, \<open>scan_rows\<close> the outer loop over \<open>y\<close>. They carry the
  particle list built so far and the count of random values taken.
\<close>

function scan_row ::
  "nat list \<Rightarrow> nat \<Rightarrow> random_source \<Rightarrow> nat \<Rightarrow> nat \<Rightarrow> particle list \<times> nat
     \<Rightarrow> particle list \<times> nat" where
  "scan_row pixels pw rng y x (ps, k) =
     (if x < pw then
        scan_row pixels pw rng y (x + SAMPLE_STEP)
          (if lit pixels pw x y
           then (let (p, k') = makeParticle rng k x y in (ps @ [p], k'))
           else (ps, k))
      else (ps, k))"
  by pat_completeness auto
termination
  by (relation "measure (\<lambda>(pixels, pw, rng, y, x, acc). pw - x)")
     (auto simp add: SAMPLE_STEP_def)

function scan_rows ::
  "nat list \<Rightarrow> nat \<Rightarrow> nat \<Rightarrow> random_source \<Rightarrow> nat \<Rightarrow> particle list \<times> nat
     \<Rightarrow> particle list \<times> nat" where
  "scan_rows pixels pw ph rng y (ps, k) =
     (if y < ph then
        scan_rows pixels pw ph rng (y + SAMPLE_STEP) (scan_row pixels pw rng y 0 (ps, k))
      else (ps, k))"
  by pat_completeness auto
termination
  by (relation "measure (\<lambda>(pixels, pw, ph, rng, y, acc). ph - y)")
     (auto simp add: SAMPLE_STEP_def)

declare scan_row.simps [simp del]
declare scan_rows.simps [simp del]

definition sample_pixels ::
  "nat list \<Rightarrow> nat \<Rightarrow> nat \<Rightarrow> random_source \<Rightarrow> nat \<Rightarrow> particle list \<times> nat" where
  \<comment> \<open>lines 165 to 181: the list starts empty, the scan starts at row 0\<close>
  "sample_pixels pixels pw ph rng k = scan_rows pixels pw ph rng 0 ([], k)"

text \<open>
  The points that the two loops visit, written without the loops: both coordinates are
  multiples of the step and lie inside the buffer.
\<close>

function steps :: "nat \<Rightarrow> nat \<Rightarrow> nat list" where
  \<comment> \<open>the values of a loop variable that starts at \<open>x\<close> and advances by the step below \<open>n\<close>\<close>
  "steps x n = (if x < n then x # steps (x + SAMPLE_STEP) n else [])"
  by pat_completeness auto
termination
  by (relation "measure (\<lambda>(x, n). n - x)") (auto simp add: SAMPLE_STEP_def)

declare steps.simps [simp del]

definition on_grid :: "nat \<Rightarrow> nat \<Rightarrow> nat \<Rightarrow> nat \<Rightarrow> bool" where
  "on_grid pw ph x y = (x < pw \<and> y < ph \<and> SAMPLE_STEP dvd x \<and> SAMPLE_STEP dvd y)"

text \<open>
  A particle whose position is its home moved by one jitter value in \<open>[-2, 2)\<close> along
  both axes, as \<open>makeParticle\<close> leaves it.
\<close>

definition jittered :: "particle \<Rightarrow> bool" where
  "jittered p = (\<exists>j. - 2 \<le> j \<and> j < 2
       \<and> pos p = \<lparr>vx = vx (home p) + j, vy = vy (home p) + j\<rparr>)"

definition row_homes :: "nat list \<Rightarrow> nat \<Rightarrow> nat \<Rightarrow> vector list" where
  \<comment> \<open>the lit pixels that the inner loop visits in row \<open>y\<close>, as vectors\<close>
  "row_homes pixels pw y =
     map (\<lambda>x'. createVector (real x') (real y)) (filter (\<lambda>x'. lit pixels pw x' y) (steps 0 pw))"

section \<open>Build key, rebuilds and the event handlers\<close>

text \<open>
  The build key of lines 69 and 183: the text, a bar, the width, an \<open>x\<close> and the height.
\<close>

definition buildKey_of :: "string \<Rightarrow> nat \<Rightarrow> nat \<Rightarrow> string" where
  "buildKey_of t w h = t @ ''|'' @ dec w @ ''x'' @ dec h"

definition buildKey :: "sketch \<Rightarrow> string" where
  "buildKey s = buildKey_of (DISPLAY_TEXT s) (width s) (height s)"

text \<open>
  \<open>buildTextParticles\<close> (lines 133 to 184). The text rasterizer of lines 135 to 161 is
  the platform's: \<open>raster txt w h\<close> is the pixel array of the \<open>w\<close> by \<open>h\<close> buffer after the
  text was drawn into it. The sampler reads it, the particle list is replaced and the key
  of the build is stored.
\<close>

type_synonym rasterizer = "string \<Rightarrow> nat \<Rightarrow> nat \<Rightarrow> nat list"

definition buildTextParticles :: "rasterizer \<Rightarrow> random_source \<Rightarrow> sketch \<Rightarrow> sketch" where
  "buildTextParticles raster rng s =
     (let pixels = raster (DISPLAY_TEXT s) (width s) (height s);
          (ps, k) = sample_pixels pixels (width s) (height s) rng (drawn s)
      in s\<lparr>particles := ps, drawn := k,
           lastBuildKey := buildKey_of (DISPLAY_TEXT s) (width s) (height s),
           builds := builds s + 1\<rparr>)"

text \<open>
  \<open>setup_sketch\<close> is the function \<open>setup\<close> of the source (lines 52 to 58), followed
  by \<open>keyTyped\<close> (lines 198 to 203). \<open>ww\<close> and \<open>wh\<close> are \<open>windowWidth\<close> and
  \<open>windowHeight\<close>, \<open>ms\<close> is \<open>millis()\<close>.
\<close>

definition setup_sketch ::
  "rasterizer \<Rightarrow> random_source \<Rightarrow> (string \<times> string) list \<Rightarrow> nat \<Rightarrow> nat \<Rightarrow> real
     \<Rightarrow> sketch \<Rightarrow> sketch" where
  "setup_sketch raster rng q ww wh ms s =
     (let s1 = getParams q s;
          s2 = s1\<lparr>width := ww, height := wh\<rparr>;
          s3 = s2\<lparr>startMillis := ms\<rparr>
      in buildTextParticles raster rng s3)"

definition keyTyped :: "rasterizer \<Rightarrow> random_source \<Rightarrow> string \<Rightarrow> sketch \<Rightarrow> sketch" where
  "keyTyped raster rng key s =
     (if key = ''r'' then
        (let n = nat \<lfloor>random2 1 9999 (rng (drawn s))\<rfloor>;
             s1 = s\<lparr>DISPLAY_TEXT := dec n, drawn := drawn s + 1\<rparr>
         in buildTextParticles raster rng s1)
      else s)"

text \<open>
  \<open>draw\<close> (lines 65 to 109): the rebuild when the key differs from the last build's, then
  the particles, then the HUD. \<open>ms\<close> is the value of \<open>millis()\<close> read for the breath clock
  (line 73) and \<open>ms2\<close> the later one read for the countdown (line 106). The result is the
  new state and what the frame draws.
\<close>

definition draw ::
  "rasterizer \<Rightarrow> random_source \<Rightarrow> noise_source \<Rightarrow> real \<Rightarrow> real \<Rightarrow> sketch
     \<Rightarrow> sketch \<times> circle_cmd list \<times> text_cmd option" where
  "draw raster rng noise ms ms2 s =
     (let s1 = (if buildKey s \<noteq> lastBuildKey s then buildTextParticles raster rng s else s);
          t = ms / 1000.0;
          (ps, circles) = draw_particles noise (BREATH_SECONDS s1) t (particles s1);
          hud = draw_hud (RUN_SECONDS s1) ms2 (startMillis s1) (width s1) (height s1)
      in (s1\<lparr>particles := ps\<rparr>, circles, hud))"

text \<open>
  p5's \<open>resizeCanvas(w, h)\<close>, called without its third argument \<open>noRedraw\<close>: the canvas
  takes the new size and \<open>draw\<close> runs once at once. \<open>windowResized\<close> (lines 60 to 63)
  calls it and then builds the particles; its result is the state it leaves and what the
  frame inside \<open>resizeCanvas\<close> drew.
\<close>

definition resizeCanvas ::
  "rasterizer \<Rightarrow> random_source \<Rightarrow> noise_source \<Rightarrow> real \<Rightarrow> real \<Rightarrow> nat \<Rightarrow> nat \<Rightarrow> sketch
     \<Rightarrow> sketch \<times> circle_cmd list \<times> text_cmd option" where
  "resizeCanvas raster rng noise ms ms2 w h s =
     draw raster rng noise ms ms2 (s\<lparr>width := w, height := h\<rparr>)"

definition windowResized ::
  "rasterizer \<Rightarrow> random_source \<Rightarrow> noise_source \<Rightarrow> real \<Rightarrow> real \<Rightarrow> nat \<Rightarrow> nat \<Rightarrow> sketch
     \<Rightarrow> sketch \<times> circle_cmd list \<times> text_cmd option" where
  "windowResized raster rng noise ms ms2 ww wh s =
     (let (s1, circles, hud) = resizeCanvas raster rng noise ms ms2 ww wh s
      in (buildTextParticles raster rng s1, circles, hud))"

section \<open>The parts of a frame\<close>

lemma build_fields:
  "DISPLAY_TEXT (buildTextParticles raster rng s) = DISPLAY_TEXT s"
  "width (buildTextParticles raster rng s) = width s"
  "height (buildTextParticles raster rng s) = height s"
  "builds (buildTextParticles raster rng s) = builds s + 1"
  "lastBuildKey (buildTextParticles raster rng s) = buildKey s"
  "RUN_SECONDS (buildTextParticles raster rng s) = RUN_SECONDS s"
  "BREATH_SECONDS (buildTextParticles raster rng s) = BREATH_SECONDS s"
  "startMillis (buildTextParticles raster rng s) = startMillis s"
  by (simp_all add: buildTextParticles_def Let_def split_beta buildKey_def)

lemma build_up_to_date:
  "lastBuildKey (buildTextParticles raster rng s) = buildKey (buildTextParticles raster rng s)"
  by (simp add: build_fields buildKey_def)

lemma draw_state:
  "fst (draw raster rng noise ms ms2 s)
     = (let s1 = (if buildKey s \<noteq> lastBuildKey s then buildTextParticles raster rng s else s)
        in s1\<lparr>particles := fst (draw_particles noise (BREATH_SECONDS s1) (ms / 1000) (particles s1))\<rparr>)"
  by (simp add: draw_def Let_def split_beta)

lemma draw_circles:
  "fst (snd (draw raster rng noise ms ms2 s))
     = (let s1 = (if buildKey s \<noteq> lastBuildKey s then buildTextParticles raster rng s else s)
        in snd (draw_particles noise (BREATH_SECONDS s) (ms / 1000) (particles s1)))"
  by (simp add: draw_def Let_def split_beta build_fields)

lemma draw_hud_part:
  "snd (snd (draw raster rng noise ms ms2 s))
     = draw_hud (RUN_SECONDS s) ms2 (startMillis s) (width s) (height s)"
  by (simp add: draw_def Let_def split_beta build_fields)

lemma draw_particles_part:
  "particles (fst (draw raster rng noise ms ms2 s))
     = map (move noise (ms / 1000) (exhale (BREATH_SECONDS s) (ms / 1000)))
         (particles (if buildKey s \<noteq> lastBuildKey s then buildTextParticles raster rng s else s))"
  by (simp add: draw_state draw_particles_def Let_def build_fields)

section \<open>Properties of the breath clock\<close>

lemma js_rem_nonneg:
  assumes "0 \<le> a" "0 < b"
  shows "js_rem a b = a - b * of_int \<lfloor>a / b\<rfloor>"
  using assms by (simp add: js_rem_def js_trunc_def)

lemma js_rem_range:
  assumes "0 \<le> a" "0 < b"
  shows "0 \<le> js_rem a b" and "js_rem a b < b"
proof -
  define k where "k = \<lfloor>a / b\<rfloor>"
  have lo: "of_int k \<le> a / b" unfolding k_def by simp
  have hi: "a / b < of_int k + 1" unfolding k_def by linarith
  from lo assms(2) have "of_int k * b \<le> a"
    by (simp add: pos_le_divide_eq)
  then show "0 \<le> js_rem a b"
    using assms by (simp add: js_rem_nonneg k_def [symmetric] mult.commute)
  from hi assms(2) have "a < (of_int k + 1) * b"
    by (simp add: pos_divide_less_eq)
  then show "js_rem a b < b"
    using assms by (simp add: js_rem_nonneg k_def [symmetric] algebra_simps)
qed

lemma phase_range:
  assumes "0 < bs" "0 \<le> t"
  shows "0 \<le> phase bs t" and "phase bs t < 1"
proof -
  have p: "0 < period bs" using assms by (simp add: period_def)
  from js_rem_range [OF assms(2) p]
  show "0 \<le> phase bs t" and "phase bs t < 1"
    using p by (simp_all add: phase_def)
qed

lemma tri_range:
  assumes "0 < bs" "0 \<le> t"
  shows "0 \<le> tri bs t" and "tri bs t \<le> 1"
  using phase_range [OF assms] by (simp_all add: tri_def)

lemma phase_at_zero: "phase bs 0 = 0"
  by (simp add: phase_def js_rem_def js_trunc_def)

lemma phase_at_half:
  assumes "0 < bs"
  shows "phase bs bs = 1 / 2"
proof -
  have "bs / (bs * 2) = 1 / 2" using assms by simp
  then have "js_rem bs (period bs) = bs"
    by (simp add: js_rem_def js_trunc_def period_def)
  then show ?thesis using assms by (simp add: phase_def period_def)
qed

lemma phase_at_full:
  assumes "0 < bs"
  shows "phase bs (2 * bs) = 0"
proof -
  have "2 * bs / (bs * 2) = 1" using assms by simp
  then have "js_rem (2 * bs) (period bs) = 0"
    by (simp add: js_rem_def js_trunc_def period_def)
  then show ?thesis by (simp add: phase_def)
qed

text \<open>
  Claim C1. For every half-period \<open>h > 0.5\<close> and every time \<open>t\<close> of the clock (the
  elapsed seconds, never negative), the period is \<open>2h\<close>, the phase is
  \<open>(t mod period) / period\<close> and lies in \<open>[0, 1)\<close>, the triangle value is \<open>2 * phase\<close>
  below one half and \<open>2 * (1 - phase)\<close> from there on, it stays within \<open>[0, 1]\<close>, it is
  0 at \<open>t = 0\<close>, 1 at \<open>t = h\<close> and 0 again at \<open>t = 2h\<close>, and exhale is \<open>1 - tri\<close>.
\<close>

theorem breath_clock_triangle:
  assumes "1 / 2 < h" and "0 \<le> t"
  shows "period h = 2 * h
    \<and> phase h t = (t - period h * of_int \<lfloor>t / period h\<rfloor>) / period h
    \<and> 0 \<le> phase h t \<and> phase h t < 1
    \<and> tri h t = (if phase h t < 1 / 2 then 2 * phase h t else 2 * (1 - phase h t))
    \<and> 0 \<le> tri h t \<and> tri h t \<le> 1
    \<and> tri h 0 = 0
    \<and> tri h h = 1
    \<and> tri h (2 * h) = 0
    \<and> exhale h t = 1 - tri h t"
proof -
  have h: "0 < h" using assms(1) by simp
  then have p: "0 < period h" by (simp add: period_def)
  have c1: "period h = 2 * h" by (simp add: period_def)
  have c2: "phase h t = (t - period h * of_int \<lfloor>t / period h\<rfloor>) / period h"
    by (simp add: phase_def js_rem_nonneg [OF assms(2) p])
  have c3: "0 \<le> phase h t \<and> phase h t < 1" using phase_range [OF h assms(2)] by simp
  have c4: "tri h t = (if phase h t < 1 / 2 then 2 * phase h t else 2 * (1 - phase h t))"
    by (simp add: tri_def)
  have c5: "0 \<le> tri h t \<and> tri h t \<le> 1" using tri_range [OF h assms(2)] by simp
  have c6: "tri h 0 = 0" by (simp add: tri_def phase_at_zero)
  have c7: "tri h h = 1" by (simp add: tri_def phase_at_half [OF h])
  have c8: "tri h (2 * h) = 0" by (simp add: tri_def phase_at_full [OF h])
  have c9: "exhale h t = 1 - tri h t" by (simp add: exhale_def)
  from c1 c2 c3 c4 c5 c6 c7 c8 c9 show ?thesis by blast
qed

theorem breath_clock_triangle_witness:
  "(1 / 2 :: real) < 8 \<and> (0::real) \<le> 20
    \<and> period 8 = 16 \<and> phase 8 20 = 1 / 4 \<and> tri 8 20 = 1 / 2
    \<and> tri 8 0 = 0 \<and> tri 8 8 = 1 \<and> tri 8 16 = 0 \<and> exhale 8 20 = 1 / 2"
proof -
  have f: "\<lfloor>(20::real) / 16\<rfloor> = 1" by simp
  show ?thesis using breath_clock_triangle [of 8 20] by (simp add: f)
qed

section \<open>Properties of the flow field\<close>

lemma map_range_unit: "map_range n 0 1 lo hi = lo + n * (hi - lo)"
  by (simp add: map_range_def)

lemma flow_ang_eq:
  "flow_ang noise x y t = - pi + 2 * pi * noise (x * 0.0013) (y * 0.0013) (t * 0.07)"
  by (simp add: flow_ang_def map_range_unit)

lemma flow_magnitude_eq:
  "flow_magnitude noise x y t =
     0.2 + 0.8 * noise ((x + 999) * 0.0013) ((y - 777) * 0.0013) (t * 0.07)"
  by (simp add: flow_magnitude_def map_range_unit)

lemma flow_ang_range:
  assumes "0 \<le> n" "n \<le> (1::real)"
  shows "- pi \<le> - pi + 2 * pi * n" and "- pi + 2 * pi * n \<le> pi"
proof -
  have "0 \<le> 2 * pi * n" using assms by simp
  then show "- pi \<le> - pi + 2 * pi * n" by simp
  have "2 * pi * n \<le> 2 * pi * 1"
    using assms by (intro mult_left_mono) simp_all
  then show "- pi + 2 * pi * n \<le> pi" by simp
qed

lemma flowForce_eq:
  "flowForce noise x y t =
     \<lparr>vx = cos (flow_ang noise x y t) * flow_magnitude noise x y t,
      vy = sin (flow_ang noise x y t) * flow_magnitude noise x y t\<rparr>"
  by (simp add: flowForce_def Let_def mult_def createVector_def)

text \<open>
  Claim C7. For every point \<open>(x, y)\<close> and time \<open>t\<close>, when the noise source returns values
  in \<open>[0, 1]\<close>, the flow field takes two noise samples, the second one offset in space by
  \<open>(999, -777)\<close>, maps the first to an angle in \<open>[-pi, pi]\<close> and the second to a magnitude
  in \<open>[0.2, 1.0]\<close>, and returns the vector \<open>(cos angle * magnitude, sin angle * magnitude)\<close>.
  The result depends on the noise source through these two samples only: two sources
  that agree on them give the same vector.
\<close>

theorem flowForce_angle_magnitude:
  assumes "\<forall>a b c. 0 \<le> noise a b c \<and> noise a b c \<le> 1"
  shows "flow_ang noise x y t = - pi + 2 * pi * noise (x * 0.0013) (y * 0.0013) (t * 0.07)
    \<and> flow_magnitude noise x y t =
        0.2 + 0.8 * noise ((x + 999) * 0.0013) ((y - 777) * 0.0013) (t * 0.07)
    \<and> - pi \<le> flow_ang noise x y t \<and> flow_ang noise x y t \<le> pi
    \<and> 0.2 \<le> flow_magnitude noise x y t \<and> flow_magnitude noise x y t \<le> 1.0
    \<and> flowForce noise x y t =
        \<lparr>vx = cos (flow_ang noise x y t) * flow_magnitude noise x y t,
         vy = sin (flow_ang noise x y t) * flow_magnitude noise x y t\<rparr>
    \<and> (\<forall>noise'.
         noise' (x * 0.0013) (y * 0.0013) (t * 0.07) = noise (x * 0.0013) (y * 0.0013) (t * 0.07)
         \<and> noise' ((x + 999) * 0.0013) ((y - 777) * 0.0013) (t * 0.07)
             = noise ((x + 999) * 0.0013) ((y - 777) * 0.0013) (t * 0.07)
         \<longrightarrow> flowForce noise' x y t = flowForce noise x y t)"
proof -
  define n1 where "n1 = noise (x * 0.0013) (y * 0.0013) (t * 0.07)"
  define n2 where "n2 = noise ((x + 999) * 0.0013) ((y - 777) * 0.0013) (t * 0.07)"
  have r1: "0 \<le> n1" "n1 \<le> 1" and r2: "0 \<le> n2" "n2 \<le> 1"
    using assms by (simp_all add: n1_def n2_def)
  have a: "flow_ang noise x y t = - pi + 2 * pi * n1"
    by (simp add: flow_ang_eq n1_def)
  have m: "flow_magnitude noise x y t = 0.2 + 0.8 * n2"
    by (simp add: flow_magnitude_eq n2_def)
  have ar: "- pi \<le> flow_ang noise x y t \<and> flow_ang noise x y t \<le> pi"
    using flow_ang_range [OF r1] by (simp add: a)
  have mr: "0.2 \<le> flow_magnitude noise x y t \<and> flow_magnitude noise x y t \<le> 1.0"
    using r2 by (simp add: m)
  have det: "\<forall>noise'.
         noise' (x * 0.0013) (y * 0.0013) (t * 0.07) = noise (x * 0.0013) (y * 0.0013) (t * 0.07)
         \<and> noise' ((x + 999) * 0.0013) ((y - 777) * 0.0013) (t * 0.07)
             = noise ((x + 999) * 0.0013) ((y - 777) * 0.0013) (t * 0.07)
         \<longrightarrow> flowForce noise' x y t = flowForce noise x y t"
    by (simp add: flowForce_eq flow_ang_eq flow_magnitude_eq)
  from a m ar mr det flowForce_eq [of noise x y t] show ?thesis
    unfolding n1_def n2_def by blast
qed

theorem flowForce_angle_magnitude_witness:
  "(\<forall>a b c. (0::real) \<le> (\<lambda>x y z. 1 / 2) a b c \<and> (\<lambda>x y z. 1 / 2 :: real) a b c \<le> 1)
    \<and> flow_ang (\<lambda>x y z. 1 / 2) 30 40 5 = 0
    \<and> flow_magnitude (\<lambda>x y z. 1 / 2) 30 40 5 = 3 / 5
    \<and> flowForce (\<lambda>x y z. 1 / 2) 30 40 5 = \<lparr>vx = 3 / 5, vy = 0\<rparr>
    \<and> flowForce (\<lambda>x y z. if z = 7 / 20 then 1 / 2 else 0) 30 40 5
        = flowForce (\<lambda>x y z. 1 / 2) 30 40 5"
proof -
  note th = flowForce_angle_magnitude [of "\<lambda>x y z. 1 / 2" 30 40 5]
  have r: "\<forall>a b c. (0::real) \<le> (\<lambda>x y z. 1 / 2) a b c \<and> (\<lambda>x y z. 1 / 2 :: real) a b c \<le> 1"
    by simp
  from th [OF r] have a: "flow_ang (\<lambda>x y z. 1 / 2) 30 40 5 = 0
      \<and> flow_magnitude (\<lambda>x y z. 1 / 2) 30 40 5 = 3 / 5
      \<and> flowForce (\<lambda>x y z. 1 / 2) 30 40 5 = \<lparr>vx = 3 / 5, vy = 0\<rparr>"
    by simp
  from th [OF r]
  have det: "\<forall>noise'. noise' (30 * 0.0013) (40 * 0.0013) (5 * 0.07) = 1 / 2
        \<and> noise' ((30 + 999) * 0.0013) ((40 - 777) * 0.0013) (5 * 0.07) = 1 / 2
      \<longrightarrow> flowForce noise' 30 40 5 = flowForce (\<lambda>x y z. 1 / 2) 30 40 5"
    by simp
  from spec [OF det, of "\<lambda>x y z. if z = 7 / 20 then 1 / 2 else 0"]
  have b: "flowForce (\<lambda>x y z. if z = 7 / 20 then 1 / 2 else 0) 30 40 5
        = flowForce (\<lambda>x y z. 1 / 2) 30 40 5"
    by simp
  from r a b show ?thesis by blast
qed

section \<open>Properties of the motion integrator\<close>

lemma target_eq:
  "target noise t ex p =
     \<lparr>vx = vx (home p) + (cos (drift_ang noise t p) * (spread p * ex)
             + vx (flowForce noise (vx (home p)) (vy (home p)) t) * (DRIFT_NOISE_STRENGTH * ex)),
      vy = vy (home p) + (sin (drift_ang noise t p) * (spread p * ex)
             + vy (flowForce noise (vx (home p)) (vy (home p)) t) * (DRIFT_NOISE_STRENGTH * ex))\<rparr>"
  by (simp add: target_def radial_drift_def flow_push_def Let_def add_def mult_def createVector_def)

lemma move_pos:
  "pos (move noise t ex p) =
     \<lparr>vx = lerp (vx (pos p)) (vx (target noise t ex p)) (easing ex),
      vy = lerp (vy (pos p)) (vy (target noise t ex p)) (easing ex)\<rparr>"
  by (simp add: move_def Let_def)

lemma easing_eq: "easing ex = 0.82 - 0.74 * ex"
  by (simp add: easing_def lerp_def INHALE_TIGHTNESS_def algebra_simps)



lemma dist_v_cmod: "dist_v a b = cmod (Complex (vx a - vx b) (vy a - vy b))"
  by (simp add: dist_v_def cmod_def)

lemma lerp_offset: "lerp a b e - h = (1 - e) * (a - h) + e * (b - h)"
  by (simp add: lerp_def algebra_simps)

lemma target_exhale0: "target noise t 0 p = home p"
  by (simp add: target_eq)

lemma easing_0: "easing 0 = 82 / 100" and easing_1: "easing 1 = 8 / 100"
  by (simp_all add: easing_eq)

lemma move_exhale0_offset:
  "vx (pos (move noise t 0 p)) - vx (home p) = (18 / 100) * (vx (pos p) - vx (home p))"
  "vy (pos (move noise t 0 p)) - vy (home p) = (18 / 100) * (vy (pos p) - vy (home p))"
  by (simp_all add: move_pos lerp_offset target_exhale0 easing_0)

lemma move_exhale1_offset:
  "vx (pos (move noise t 1 p)) - vx (home p)
     = (92 / 100) * (vx (pos p) - vx (home p)) + (8 / 100) * (vx (target noise t 1 p) - vx (home p))"
  "vy (pos (move noise t 1 p)) - vy (home p)
     = (92 / 100) * (vy (pos p) - vy (home p)) + (8 / 100) * (vy (target noise t 1 p) - vy (home p))"
  by (simp_all add: move_pos lerp_offset easing_1)

lemma cmod_scale: "0 \<le> k \<Longrightarrow> cmod (Complex (k * a) (k * b)) = k * cmod (Complex a b)"
proof -
  assume k: "0 \<le> k"
  have "Complex (k * a) (k * b) = of_real k * Complex a b"
    by (simp add: complex_eq_iff)
  then show ?thesis using k by (simp add: norm_mult)
qed

lemma dist_exhale0:
  "dist_v (pos (move noise t 0 p)) (home p) = (18 / 100) * dist_v (pos p) (home p)"
  unfolding dist_v_cmod move_exhale0_offset by (rule cmod_scale) simp

lemma dist_exhale1_lower:
  "(92 / 100) * dist_v (pos p) (home p) - (8 / 100) * dist_v (target noise t 1 p) (home p)
     \<le> dist_v (pos (move noise t 1 p)) (home p)"
proof -
  define a b c d where "a = vx (pos p) - vx (home p)" and "b = vy (pos p) - vy (home p)"
    and "c = vx (target noise t 1 p) - vx (home p)" and "d = vy (target noise t 1 p) - vy (home p)"
  have e: "Complex (92 / 100 * a + 8 / 100 * c) (92 / 100 * b + 8 / 100 * d)
      = Complex (92 / 100 * a) (92 / 100 * b) + Complex (8 / 100 * c) (8 / 100 * d)"
    by (simp add: complex_eq_iff)
  have "cmod (Complex (92 / 100 * a) (92 / 100 * b)) - cmod (Complex (8 / 100 * c) (8 / 100 * d))
     \<le> cmod (Complex (92 / 100 * a) (92 / 100 * b) + Complex (8 / 100 * c) (8 / 100 * d))"
    by (rule norm_diff_ineq)
  moreover have "cmod (Complex (92 / 100 * a) (92 / 100 * b)) = 92 / 100 * cmod (Complex a b)"
    by (rule cmod_scale) simp
  moreover have "cmod (Complex (8 / 100 * c) (8 / 100 * d)) = 8 / 100 * cmod (Complex c d)"
    by (rule cmod_scale) simp
  ultimately have "92 / 100 * cmod (Complex a b) - 8 / 100 * cmod (Complex c d)
     \<le> cmod (Complex (92 / 100 * a + 8 / 100 * c) (92 / 100 * b + 8 / 100 * d))"
    by (simp only: e)
  then show ?thesis
    unfolding dist_v_cmod move_exhale1_offset a_def b_def c_def d_def .
qed

lemma dist_v_pos: "a \<noteq> b \<Longrightarrow> 0 < dist_v a b"
proof -
  assume "a \<noteq> b"
  then have "vx a \<noteq> vx b \<or> vy a \<noteq> vy b"
    by (cases a, cases b) auto
  then have "Complex (vx a - vx b) (vy a - vy b) \<noteq> 0"
    by (auto simp add: complex_eq_iff)
  then show ?thesis by (simp add: dist_v_cmod)
qed

lemma cmod_polar: "cmod (Complex (cos a * m) (sin a * m)) = \<bar>m\<bar>"
proof -
  have "Complex (cos a * m) (sin a * m) = of_real m * cis a"
    by (simp add: complex_eq_iff)
  then show ?thesis by (simp add: norm_mult)
qed

lemma spread_range:
  assumes "0 \<le> rand p" "rand p \<le> 1"
  shows "0 \<le> spread p" "spread p \<le> 364 / 10"
  using assms by (simp_all add: spread_def EXHALE_SPREAD_def EXHALE_JITTER_def)

lemma drift_bound:
  assumes n: "\<forall>a b c. 0 \<le> noise a b c \<and> noise a b c \<le> 1" and r: "0 \<le> rand p" "rand p \<le> 1"
  shows "dist_v (target noise t 1 p) (home p) \<le> 373 / 10"
proof -
  define g where "g = drift_ang noise t p"
  define f where "f = flow_ang noise (vx (home p)) (vy (home p)) t"
  define m where "m = flow_magnitude noise (vx (home p)) (vy (home p)) t"
  define ny where
    "ny = noise ((vx (home p) + 999) * 0.0013) ((vy (home p) - 777) * 0.0013) (t * 0.07)"
  from n have ny: "0 \<le> ny" "ny \<le> 1" unfolding ny_def by blast+
  have "m = 0.2 + 0.8 * ny" by (simp only: m_def flow_magnitude_eq ny_def)
  with ny have m: "0 \<le> m" "m \<le> 1" by simp_all
  have tx: "vx (target noise t 1 p) - vx (home p) = cos g * spread p + cos f * (m * (9 / 10))"
    by (simp add: target_eq flowForce_eq g_def f_def m_def DRIFT_NOISE_STRENGTH_def)
  have ty: "vy (target noise t 1 p) - vy (home p) = sin g * spread p + sin f * (m * (9 / 10))"
    by (simp add: target_eq flowForce_eq g_def f_def m_def DRIFT_NOISE_STRENGTH_def)
  have "Complex (cos g * spread p + cos f * (m * (9 / 10))) (sin g * spread p + sin f * (m * (9 / 10)))
      = Complex (cos g * spread p) (sin g * spread p) + Complex (cos f * (m * (9 / 10))) (sin f * (m * (9 / 10)))"
    by (simp add: complex_eq_iff)
  then have "dist_v (target noise t 1 p) (home p)
      \<le> cmod (Complex (cos g * spread p) (sin g * spread p))
        + cmod (Complex (cos f * (m * (9 / 10))) (sin f * (m * (9 / 10))))"
    unfolding dist_v_cmod tx ty by (simp only: norm_triangle_ineq)
  also have "\<dots> = \<bar>spread p\<bar> + \<bar>m * (9 / 10)\<bar>"
    by (simp only: cmod_polar)
  also have "\<dots> \<le> 373 / 10"
    using spread_range [OF r] m by simp
  finally show ?thesis .
qed

lemma dist_v_on_axis: "vy a = vy b \<Longrightarrow> dist_v a b = \<bar>vx a - vx b\<bar>"
  by (simp add: dist_v_def)

lemma move_half_noise:
  "pos (move (\<lambda>x y z. 1 / 2) t ex \<lparr>home = \<lparr>vx = 0, vy = 0\<rparr>, pos = \<lparr>vx = a, vy = 0\<rparr>,
        psize = 2, theta = 0, rand = 1 / 2\<rparr>)
     = \<lparr>vx = a + (82 / 100 - 74 / 100 * ex) * (- (2326 / 100) * ex - a), vy = 0\<rparr>"
  by (simp add: move_pos target_eq flowForce_eq flow_ang_eq flow_magnitude_eq drift_ang_def
      spread_def easing_eq lerp_def TWO_PI_def EXHALE_SPREAD_def EXHALE_JITTER_def
      DRIFT_NOISE_STRENGTH_def DRIFT_NOISE_SCALE_def algebra_simps)

text \<open>
  Claim C2 says that for every particle away from its home, one step at \<open>exhale = 0\<close>
  leaves it strictly closer to home than one step at \<open>exhale = 1\<close> from the same position
  and noise. It fails when the drift of the exhale step points back across home: with the
  noise at one half everywhere, \<open>theta = 0\<close>, \<open>rand = 0.5\<close>, home at the origin and the
  particle at \<open>(2, 0)\<close>, the step at \<open>exhale = 0\<close> ends 0.36 from home and the step at
  \<open>exhale = 1\<close> ends 0.0208 from home.
\<close>

theorem exhale0_not_always_closer:
  "pos \<lparr>home = \<lparr>vx = 0, vy = 0\<rparr>, pos = \<lparr>vx = 2, vy = 0\<rparr>, psize = 2, theta = 0, rand = 1 / 2\<rparr>
     \<noteq> home \<lparr>home = \<lparr>vx = 0, vy = 0\<rparr>, pos = \<lparr>vx = 2, vy = 0\<rparr>, psize = 2, theta = 0, rand = 1 / 2\<rparr>
   \<and> dist_v (pos (move (\<lambda>x y z. 1 / 2) 0 0
          \<lparr>home = \<lparr>vx = 0, vy = 0\<rparr>, pos = \<lparr>vx = 2, vy = 0\<rparr>, psize = 2, theta = 0, rand = 1 / 2\<rparr>))
        \<lparr>vx = 0, vy = 0\<rparr> = 9 / 25
   \<and> dist_v (pos (move (\<lambda>x y z. 1 / 2) 0 1
          \<lparr>home = \<lparr>vx = 0, vy = 0\<rparr>, pos = \<lparr>vx = 2, vy = 0\<rparr>, psize = 2, theta = 0, rand = 1 / 2\<rparr>))
        \<lparr>vx = 0, vy = 0\<rparr> = 13 / 625
   \<and> \<not> dist_v (pos (move (\<lambda>x y z. 1 / 2) 0 0
          \<lparr>home = \<lparr>vx = 0, vy = 0\<rparr>, pos = \<lparr>vx = 2, vy = 0\<rparr>, psize = 2, theta = 0, rand = 1 / 2\<rparr>))
        \<lparr>vx = 0, vy = 0\<rparr>
      < dist_v (pos (move (\<lambda>x y z. 1 / 2) 0 1
          \<lparr>home = \<lparr>vx = 0, vy = 0\<rparr>, pos = \<lparr>vx = 2, vy = 0\<rparr>, psize = 2, theta = 0, rand = 1 / 2\<rparr>))
        \<lparr>vx = 0, vy = 0\<rparr>"
  by (simp add: move_half_noise dist_v_on_axis)

text \<open>
  Claim C2, amended. For every particle away from its home, one step at \<open>exhale = 0\<close>
  moves it to 0.18 of its distance from home, so strictly closer than it was. The result
  is strictly closer to home than the result of one step at \<open>exhale = 1\<close> whenever 37 times
  the prior distance exceeds 4 times the distance of the exhale target from home; with a
  noise source in \<open>[0, 1]\<close> and \<open>rand\<close> in \<open>[0, 1]\<close> this holds for every prior distance of
  at least 4.04 pixels.
\<close>

theorem exhale0_step_closer:
  assumes "pos p \<noteq> home p"
  shows "dist_v (pos (move noise t 0 p)) (home p) = 0.18 * dist_v (pos p) (home p)
    \<and> dist_v (pos (move noise t 0 p)) (home p) < dist_v (pos p) (home p)
    \<and> (4 * dist_v (target noise t 1 p) (home p) < 37 * dist_v (pos p) (home p)
        \<longrightarrow> dist_v (pos (move noise t 0 p)) (home p) < dist_v (pos (move noise t 1 p)) (home p))
    \<and> ((\<forall>a b c. 0 \<le> noise a b c \<and> noise a b c \<le> 1) \<and> 0 \<le> rand p \<and> rand p \<le> 1
          \<and> 4.04 \<le> dist_v (pos p) (home p)
        \<longrightarrow> dist_v (pos (move noise t 0 p)) (home p) < dist_v (pos (move noise t 1 p)) (home p))"
proof -
  define d where "d = dist_v (pos p) (home p)"
  define D where "D = dist_v (target noise t 1 p) (home p)"
  define d0 where "d0 = dist_v (pos (move noise t 0 p)) (home p)"
  define d1 where "d1 = dist_v (pos (move noise t 1 p)) (home p)"
  have dpos: "0 < d" unfolding d_def using assms by (rule dist_v_pos)
  have e0: "d0 = (18 / 100) * d" unfolding d0_def d_def by (rule dist_exhale0)
  have lo: "(92 / 100) * d - (8 / 100) * D \<le> d1"
    unfolding d1_def d_def D_def by (rule dist_exhale1_lower)
  have c1: "d0 = 0.18 * d" using e0 by simp
  have c2: "d0 < d" using e0 dpos by simp
  have c3: "4 * D < 37 * d \<longrightarrow> d0 < d1" using e0 lo by auto
  have c4: "(\<forall>a b c. 0 \<le> noise a b c \<and> noise a b c \<le> 1) \<and> 0 \<le> rand p \<and> rand p \<le> 1
          \<and> 4.04 \<le> d \<longrightarrow> d0 < d1"
  proof (intro impI, elim conjE)
    assume n: "\<forall>a b c. 0 \<le> noise a b c \<and> noise a b c \<le> 1"
      and r: "0 \<le> rand p" "rand p \<le> 1" and far: "4.04 \<le> d"
    have "D \<le> 373 / 10" unfolding D_def using n r by (rule drift_bound)
    with far have "4 * D < 37 * d" by simp
    with c3 show "d0 < d1" by simp
  qed
  from c1 c2 c3 c4 show ?thesis unfolding d_def D_def d0_def d1_def by blast
qed

theorem exhale0_step_closer_witness:
  "pos \<lparr>home = \<lparr>vx = 0, vy = 0\<rparr>, pos = \<lparr>vx = 5, vy = 0\<rparr>, psize = 2, theta = 0, rand = 1 / 2\<rparr>
     \<noteq> home \<lparr>home = \<lparr>vx = 0, vy = 0\<rparr>, pos = \<lparr>vx = 5, vy = 0\<rparr>, psize = 2, theta = 0, rand = 1 / 2\<rparr>
   \<and> (\<forall>a b c. (0::real) \<le> (\<lambda>x y z. 1 / 2) a b c \<and> (\<lambda>x y z. 1 / 2 :: real) a b c \<le> 1)
   \<and> 0 \<le> rand \<lparr>home = \<lparr>vx = 0, vy = 0\<rparr>, pos = \<lparr>vx = 5, vy = 0\<rparr>, psize = 2, theta = 0, rand = 1 / 2\<rparr>
   \<and> rand \<lparr>home = \<lparr>vx = 0, vy = 0\<rparr>, pos = \<lparr>vx = 5, vy = 0\<rparr>, psize = 2, theta = 0, rand = 1 / 2\<rparr> \<le> 1
   \<and> 4.04 \<le> dist_v \<lparr>vx = 5, vy = 0\<rparr> \<lparr>vx = 0, vy = 0\<rparr>
   \<and> 4 * dist_v (target (\<lambda>x y z. 1 / 2) 0 1
          \<lparr>home = \<lparr>vx = 0, vy = 0\<rparr>, pos = \<lparr>vx = 5, vy = 0\<rparr>, psize = 2, theta = 0, rand = 1 / 2\<rparr>)
        \<lparr>vx = 0, vy = 0\<rparr>
      < 37 * dist_v \<lparr>vx = 5, vy = 0\<rparr> \<lparr>vx = 0, vy = 0\<rparr>
   \<and> dist_v (pos (move (\<lambda>x y z. 1 / 2) 0 0
          \<lparr>home = \<lparr>vx = 0, vy = 0\<rparr>, pos = \<lparr>vx = 5, vy = 0\<rparr>, psize = 2, theta = 0, rand = 1 / 2\<rparr>))
        \<lparr>vx = 0, vy = 0\<rparr> = 9 / 10
   \<and> dist_v (pos (move (\<lambda>x y z. 1 / 2) 0 0
          \<lparr>home = \<lparr>vx = 0, vy = 0\<rparr>, pos = \<lparr>vx = 5, vy = 0\<rparr>, psize = 2, theta = 0, rand = 1 / 2\<rparr>))
        \<lparr>vx = 0, vy = 0\<rparr>
      < dist_v (pos (move (\<lambda>x y z. 1 / 2) 0 1
          \<lparr>home = \<lparr>vx = 0, vy = 0\<rparr>, pos = \<lparr>vx = 5, vy = 0\<rparr>, psize = 2, theta = 0, rand = 1 / 2\<rparr>))
        \<lparr>vx = 0, vy = 0\<rparr>"
proof -
  have tg: "target (\<lambda>x y z. 1 / 2) 0 1
          \<lparr>home = \<lparr>vx = 0, vy = 0\<rparr>, pos = \<lparr>vx = 5, vy = 0\<rparr>, psize = 2, theta = 0, rand = 1 / 2\<rparr>
      = \<lparr>vx = - (2326 / 100), vy = 0\<rparr>"
    by (simp add: target_eq flowForce_eq flow_ang_eq flow_magnitude_eq drift_ang_def
      spread_def TWO_PI_def EXHALE_SPREAD_def EXHALE_JITTER_def
      DRIFT_NOISE_STRENGTH_def DRIFT_NOISE_SCALE_def)
  show ?thesis
    using exhale0_step_closer [of "\<lparr>home = \<lparr>vx = 0, vy = 0\<rparr>, pos = \<lparr>vx = 5, vy = 0\<rparr>, psize = 2, theta = 0, rand = 1 / 2\<rparr>"
      "\<lambda>x y z. 1 / 2" 0]
    by (simp add: dist_v_on_axis tg)
qed

text \<open>
  Claim C9. A per-frame update of a particle changes its \<open>pos\<close> field only: \<open>home\<close>,
  \<open>size\<close>, \<open>theta\<close> and \<open>rand\<close> are as they were when the particle was made, for every
  particle of the list, whose length and order a frame keeps. After \<open>draw\<close> the four fields
  are those of the list the frame started from, which is the rebuilt one when the frame
  rebuilds.
\<close>

theorem frame_update_keeps_fixed_fields:
  "home (move noise t ex p) = home p
    \<and> psize (move noise t ex p) = psize p
    \<and> theta (move noise t ex p) = theta p
    \<and> rand (move noise t ex p) = rand p
    \<and> move noise t ex p = p\<lparr>pos := pos (move noise t ex p)\<rparr>
    \<and> length (fst (draw_particles noise bs t ps)) = length ps
    \<and> map home (fst (draw_particles noise bs t ps)) = map home ps
    \<and> map psize (fst (draw_particles noise bs t ps)) = map psize ps
    \<and> map theta (fst (draw_particles noise bs t ps)) = map theta ps
    \<and> map rand (fst (draw_particles noise bs t ps)) = map rand ps
    \<and> map (\<lambda>p. (home p, psize p, theta p, rand p)) (particles (fst (draw raster rng noise ms ms2 s)))
        = map (\<lambda>p. (home p, psize p, theta p, rand p))
            (particles (if buildKey s \<noteq> lastBuildKey s then buildTextParticles raster rng s else s))"
  by (simp add: draw_particles_part move_def draw_particles_def Let_def comp_def)

text \<open>
  Claim C10. In every frame each particle is drawn with the fill opacity
  \<open>200 + 55 * tri\<close>, which lies in \<open>[200, 255]\<close> for \<open>tri\<close> in \<open>[0, 1]\<close>; as the triangle
  value of the breath clock is in \<open>[0, 1]\<close>, no particle is drawn below opacity 200, also
  at full dissolve, where \<open>tri = 0\<close>. (The half-period of a running sketch is above 0.5
  and \<open>millis()\<close> is never negative.)
\<close>

theorem particle_opacity_range:
  assumes "1 / 2 < BREATH_SECONDS s" and "0 \<le> ms"
  shows "(\<forall>c \<in> set (fst (snd (draw raster rng noise ms ms2 s))).
            fill_alpha c = 200 + 55 * tri (BREATH_SECONDS s) (ms / 1000)
            \<and> 200 \<le> fill_alpha c \<and> fill_alpha c \<le> 255)
    \<and> length (fst (snd (draw raster rng noise ms ms2 s)))
        = length (particles (fst (draw raster rng noise ms ms2 s)))
    \<and> (\<forall>tr. 0 \<le> tr \<and> tr \<le> 1 \<longrightarrow> alpha tr = 200 + 55 * tr \<and> 200 \<le> alpha tr \<and> alpha tr \<le> 255)
    \<and> alpha 0 = 200"
proof -
  have bs: "0 < BREATH_SECONDS s" using assms(1) by simp
  have t: "0 \<le> ms / 1000" using assms(2) by simp
  have r: "0 \<le> tri (BREATH_SECONDS s) (ms / 1000)" "tri (BREATH_SECONDS s) (ms / 1000) \<le> 1"
    using tri_range [OF bs t] by simp_all
  have a: "\<forall>c \<in> set (fst (snd (draw raster rng noise ms ms2 s))).
            fill_alpha c = 200 + 55 * tri (BREATH_SECONDS s) (ms / 1000)
            \<and> 200 \<le> fill_alpha c \<and> fill_alpha c \<le> 255"
    using r by (auto simp add: draw_circles draw_particles_def Let_def draw_circle_def alpha_def)
  have b: "length (fst (snd (draw raster rng noise ms ms2 s)))
        = length (particles (fst (draw raster rng noise ms ms2 s)))"
    by (simp add: draw_circles draw_particles_part draw_particles_def Let_def)
  have c: "\<forall>tr. 0 \<le> tr \<and> tr \<le> 1 \<longrightarrow> alpha tr = 200 + 55 * tr \<and> 200 \<le> alpha tr \<and> alpha tr \<le> 255"
    by (simp add: alpha_def)
  have d: "alpha 0 = 200" by (simp add: alpha_def)
  from a b c d show ?thesis by blast
qed

theorem particle_opacity_range_witness:
  "1 / 2 < BREATH_SECONDS (initial\<lparr>particles :=
        [\<lparr>home = \<lparr>vx = 0, vy = 0\<rparr>, pos = \<lparr>vx = 5, vy = 0\<rparr>, psize = 2, theta = 0, rand = 1 / 2\<rparr>],
        lastBuildKey := ''56|100x100''\<rparr>)
    \<and> (0::real) \<le> 2000
    \<and> map fill_alpha (fst (snd (draw (\<lambda>t w h. replicate (4 * w * h) 255) (\<lambda>i. 1 / 4) (\<lambda>x y z. 1 / 2) 2000 2000
        (initial\<lparr>particles :=
          [\<lparr>home = \<lparr>vx = 0, vy = 0\<rparr>, pos = \<lparr>vx = 5, vy = 0\<rparr>, psize = 2, theta = 0, rand = 1 / 2\<rparr>],
          lastBuildKey := ''56|100x100''\<rparr>))))
        = [855 / 4]
    \<and> alpha 0 = 200"
proof -
  have f: "\<lfloor>(2::real) / 16\<rfloor> = 0" by simp
  have tr: "tri 8 2 = 1 / 4"
    by (simp add: tri_def phase_def period_def js_rem_def js_trunc_def f)
  have k: "buildKey (initial\<lparr>particles :=
        [\<lparr>home = \<lparr>vx = 0, vy = 0\<rparr>, pos = \<lparr>vx = 5, vy = 0\<rparr>, psize = 2, theta = 0, rand = 1 / 2\<rparr>],
        lastBuildKey := ''56|100x100''\<rparr>) = ''56|100x100''"
    by (simp add: buildKey_def buildKey_of_def initial_def dec.simps digit_char_def)
  note th = particle_opacity_range [of "initial\<lparr>particles :=
        [\<lparr>home = \<lparr>vx = 0, vy = 0\<rparr>, pos = \<lparr>vx = 5, vy = 0\<rparr>, psize = 2, theta = 0, rand = 1 / 2\<rparr>],
        lastBuildKey := ''56|100x100''\<rparr>" 2000 "\<lambda>t w h. replicate (4 * w * h) 255" "\<lambda>i. 1 / 4" "\<lambda>x y z. 1 / 2" 2000]
  from th tr k show ?thesis
    by (simp add: draw_circles draw_particles_def Let_def draw_circle_def initial_def)
qed

section \<open>Properties of the countdown HUD\<close>

lemma dec_small: "n < 10 \<Longrightarrow> dec n = [digit_char n]"
  by (simp add: dec.simps)

lemma dec_two: "10 \<le> n \<Longrightarrow> n < 100 \<Longrightarrow> dec n = [digit_char (n div 10), digit_char (n mod 10)]"
  by (subst dec.simps) (simp add: dec_small)

lemma nf2_small: "n < 100 \<Longrightarrow> nf n 2 = [digit_char (n div 10), digit_char (n mod 10)]"
proof (cases "n < 10")
  case True
  then show ?thesis by (simp add: nf_def dec_small digit_char_def numeral_2_eq_2)
next
  case False
  assume "n < 100"
  with False show ?thesis by (simp add: nf_def dec_two)
qed

lemma countdown_txt:
  "content (drawCountdown r w h) = nf (nat \<lfloor>r / 60\<rfloor>) 2 @ '':'' @ nf (nat \<lfloor>js_rem r 60\<rfloor>) 2"
  by (simp add: drawCountdown_def Let_def)

lemma countdown_zero: "content (drawCountdown 0 w h) = ''00:00''"
  by (simp add: countdown_txt js_rem_def js_trunc_def nf2_small digit_char_def)

lemma countdown_seven: "content (drawCountdown 7 w h) = ''00:07''"
proof -
  have "\<lfloor>(7::real) / 60\<rfloor> = 0" by simp
  then show ?thesis
    by (simp add: countdown_txt js_rem_def js_trunc_def nf2_small digit_char_def)
qed

lemma seconds_range:
  assumes "0 \<le> r"
  shows "nat \<lfloor>js_rem r 60\<rfloor> < 60"
proof -
  have "js_rem r 60 < 60" using js_rem_range(2) [of r 60] assms by simp
  then have "\<lfloor>js_rem r 60\<rfloor> < (60::int)" by linarith
  then show ?thesis by linarith
qed

lemma minutes_range:
  assumes "0 \<le> r" "r < (6000::real)"
  shows "nat \<lfloor>r / 60\<rfloor> < 100"
proof -
  have "r / 60 < 100" using assms by simp
  then have "\<lfloor>r / 60\<rfloor> < (100::int)" by linarith
  then show ?thesis by linarith
qed

lemma remaining_zero: "rs \<le> (ms - st) / 1000 \<Longrightarrow> remaining rs ms st = 0"
  by (simp add: remaining_def)

lemma digit_char_not_minus: "digit_char d \<noteq> CHR ''-''"
  by (simp add: digit_char_def)

lemma dec_digits: "set (dec n) \<subseteq> digit_char ` {..<10}"
proof (induction n rule: dec.induct)
  case (1 n)
  show ?case
  proof (cases "n < 10")
    case True
    then show ?thesis by (simp add: dec.simps)
  next
    case False
    with 1 have "set (dec (n div 10)) \<subseteq> digit_char ` {..<10}" by simp
    moreover have "n mod 10 < 10" by simp
    ultimately show ?thesis using False by (subst dec.simps) auto
  qed
qed

lemma hud_content:
  "map_option content (draw_hud (Some d) ms st w h)
     = Some (content (drawCountdown (remaining d ms st) w h))"
  by (simp add: draw_hud_def)

lemma countdown_no_minus: "CHR ''-'' \<notin> set (content (drawCountdown r w h))"
proof -
  have "CHR ''-'' \<notin> set (dec n)" for n
  proof
    assume "CHR ''-'' \<in> set (dec n)"
    with dec_digits [of n] obtain d where "CHR ''-'' = digit_char d" by blast
    with digit_char_not_minus [of d] show False by simp
  qed
  then show ?thesis by (simp add: countdown_txt nf_def)
qed

text \<open>
  Claim C4. With a run time configured, the HUD shows the remaining seconds
  \<open>max(0, duration - elapsed)\<close> as minutes and seconds, each padded with zeros to two
  digits and joined by a colon, at the fixed opacity \<open>HUD_FADE\<close>: a duration of 10 seconds
  and 3 seconds elapsed give \<open>00:07\<close>; once the elapsed time reaches the duration the text
  is \<open>00:00\<close>, the remaining time is never negative and the text has no minus sign; below
  6000 remaining seconds the text is exactly two digits, a colon and two digits. Without a
  run time nothing is drawn. (\<open>st\<close> is \<open>startMillis\<close>, \<open>ms\<close> is \<open>millis()\<close>; the last
  line is the HUD of a whole frame.)
\<close>

theorem hud_countdown:
  "draw_hud None ms st w h = None
    \<and> draw_hud (Some d) ms st w h = Some (drawCountdown (remaining d ms st) w h)
    \<and> remaining d ms st = max 0 (d - (ms - st) / 1000)
    \<and> 0 \<le> remaining d ms st
    \<and> content (drawCountdown r w h)
        = nf (nat \<lfloor>r / 60\<rfloor>) 2 @ '':'' @ nf (nat \<lfloor>js_rem r 60\<rfloor>) 2
    \<and> text_alpha (drawCountdown r w h) = HUD_FADE
    \<and> map_option content (draw_hud (Some 10) (st + 3000) st w h) = Some ''00:07''
    \<and> (\<forall>e. 10 \<le> e \<longrightarrow>
          map_option content (draw_hud (Some 10) (st + 1000 * e) st w h) = Some ''00:00'')
    \<and> (d \<le> (ms - st) / 1000 \<longrightarrow>
          map_option content (draw_hud (Some d) ms st w h) = Some ''00:00'')
    \<and> CHR ''-'' \<notin> set (content (drawCountdown (remaining d ms st) w h))
    \<and> (remaining d ms st < 6000 \<longrightarrow>
          content (drawCountdown (remaining d ms st) w h)
            = [digit_char (nat \<lfloor>remaining d ms st / 60\<rfloor> div 10),
               digit_char (nat \<lfloor>remaining d ms st / 60\<rfloor> mod 10),
               CHR '':'',
               digit_char (nat \<lfloor>js_rem (remaining d ms st) 60\<rfloor> div 10),
               digit_char (nat \<lfloor>js_rem (remaining d ms st) 60\<rfloor> mod 10)])
    \<and> snd (snd (draw raster rng noise ms1 ms s))
        = draw_hud (RUN_SECONDS s) ms (startMillis s) (width s) (height s)"
proof -
  have c1: "draw_hud None ms st w h = None" by (simp add: draw_hud_def)
  have c2: "draw_hud (Some d) ms st w h = Some (drawCountdown (remaining d ms st) w h)"
    by (simp add: draw_hud_def)
  have c3: "remaining d ms st = max 0 (d - (ms - st) / 1000)" by (simp add: remaining_def)
  have c4: "0 \<le> remaining d ms st" by (simp add: remaining_def)
  have c5: "text_alpha (drawCountdown r w h) = HUD_FADE" by (simp add: drawCountdown_def Let_def)
  have "remaining 10 (st + 3000) st = 7" by (simp add: remaining_def)
  then have c6: "map_option content (draw_hud (Some 10) (st + 3000) st w h) = Some ''00:07''"
    by (simp add: hud_content countdown_seven)
  have c7: "\<forall>e. 10 \<le> e \<longrightarrow>
          map_option content (draw_hud (Some 10) (st + 1000 * e) st w h) = Some ''00:00''"
    by (simp add: hud_content remaining_zero countdown_zero)
  have c8: "d \<le> (ms - st) / 1000 \<longrightarrow>
          map_option content (draw_hud (Some d) ms st w h) = Some ''00:00''"
    by (simp add: hud_content remaining_zero countdown_zero)
  have c9: "remaining d ms st < 6000 \<longrightarrow>
          content (drawCountdown (remaining d ms st) w h)
            = [digit_char (nat \<lfloor>remaining d ms st / 60\<rfloor> div 10),
               digit_char (nat \<lfloor>remaining d ms st / 60\<rfloor> mod 10),
               CHR '':'',
               digit_char (nat \<lfloor>js_rem (remaining d ms st) 60\<rfloor> div 10),
               digit_char (nat \<lfloor>js_rem (remaining d ms st) 60\<rfloor> mod 10)]"
  proof
    assume lt: "remaining d ms st < 6000"
    have m: "nat \<lfloor>remaining d ms st / 60\<rfloor> < 100" using c4 lt by (rule minutes_range)
    have "nat \<lfloor>js_rem (remaining d ms st) 60\<rfloor> < 60" using c4 by (rule seconds_range)
    then have s: "nat \<lfloor>js_rem (remaining d ms st) 60\<rfloor> < 100" by simp
    show "content (drawCountdown (remaining d ms st) w h)
            = [digit_char (nat \<lfloor>remaining d ms st / 60\<rfloor> div 10),
               digit_char (nat \<lfloor>remaining d ms st / 60\<rfloor> mod 10),
               CHR '':'',
               digit_char (nat \<lfloor>js_rem (remaining d ms st) 60\<rfloor> div 10),
               digit_char (nat \<lfloor>js_rem (remaining d ms st) 60\<rfloor> mod 10)]"
      by (simp add: countdown_txt nf2_small [OF m] nf2_small [OF s])
  qed
  from c1 c2 c3 c4 c5 c6 c7 c8 c9 countdown_txt [of r w h]
    countdown_no_minus [of "remaining d ms st" w h] draw_hud_part [of raster rng noise ms1 ms s]
  show ?thesis by blast
qed

theorem hud_countdown_witness:
  "(10::real) \<le> (12500 - 0) / 1000
    \<and> map_option content (draw_hud (Some 10) 12500 0 800 600) = Some ''00:00''
    \<and> map_option content (draw_hud (Some 10) 3000 0 800 600) = Some ''00:07''
    \<and> remaining 600 3500 0 < 6000
    \<and> content (drawCountdown (remaining 600 3500 0) 800 600) = ''09:56''"
proof -
  note h1 = hud_countdown [of 12500 0 800 600 10 0]
  note h2 = hud_countdown [of 3500 0 800 600 600 0]
  have r: "remaining 600 3500 0 = 1193 / 2" by (simp add: remaining_def)
  have m: "\<lfloor>(1193::real) / 120\<rfloor> = 9" by simp
  have s: "js_rem (1193 / 2) 60 = 113 / 2" by (simp add: js_rem_def js_trunc_def m)
  have f: "\<lfloor>(113::real) / 2\<rfloor> = 56" by simp
  have pre: "(10::real) \<le> (12500 - 0) / 1000" by simp
  from h1 pre have a: "map_option content (draw_hud (Some 10) 12500 0 800 600) = Some ''00:00''"
    by blast
  from h1 have "map_option content (draw_hud (Some 10) (0 + 3000) 0 800 600) = Some ''00:07''"
    by blast
  then have b: "map_option content (draw_hud (Some 10) 3000 0 800 600) = Some ''00:07''"
    by simp
  have lt: "remaining 600 3500 0 < 6000" by (simp add: r)
  from h2 lt have "content (drawCountdown (remaining 600 3500 0) 800 600)
      = [digit_char (nat \<lfloor>remaining 600 3500 0 / 60\<rfloor> div 10),
         digit_char (nat \<lfloor>remaining 600 3500 0 / 60\<rfloor> mod 10),
         CHR '':'',
         digit_char (nat \<lfloor>js_rem (remaining 600 3500 0) 60\<rfloor> div 10),
         digit_char (nat \<lfloor>js_rem (remaining 600 3500 0) 60\<rfloor> mod 10)]"
    by blast
  then have c: "content (drawCountdown (remaining 600 3500 0) 800 600) = ''09:56''"
    by (simp add: r m s f digit_char_def)
  from pre a b lt c show ?thesis by blast
qed


section \<open>Properties of the particle sampler\<close>

lemma home_makeParticle: "home (fst (makeParticle rng k x y)) = createVector (real x) (real y)"
  by (simp add: makeParticle_def Let_def)

lemma scan_row_homes:
  "map home (fst (scan_row pixels pw rng y x (ps, k)))
     = map home ps @ map (\<lambda>x'. createVector (real x') (real y))
                         (filter (\<lambda>x'. lit pixels pw x' y) (steps x pw))"
proof (induction pixels pw rng y x "(ps, k)" arbitrary: ps k rule: scan_row.induct)
  case (1 pixels pw rng y x ps k)
  show ?case
  proof (cases "x < pw")
    case False
    then show ?thesis by (simp add: scan_row.simps steps.simps)
  next
    case True
    show ?thesis
    proof (cases "lit pixels pw x y")
      case False
      with True 1(1) [of ps k] show ?thesis
        by (subst scan_row.simps, subst steps.simps) simp
    next
      case lit: True
      obtain p k' where mk: "makeParticle rng k x y = (p, k')" by (cases "makeParticle rng k x y")
      then have hp: "home p = createVector (real x) (real y)"
        using home_makeParticle [of rng k x y] by simp
      from True lit mk 1(1) [of "ps @ [p]" k'] show ?thesis
        by (subst scan_row.simps, subst steps.simps) (simp add: hp)
    qed
  qed
qed

lemma scan_rows_homes:
  "map home (fst (scan_rows pixels pw ph rng y (ps, k)))
     = map home ps @ concat (map (row_homes pixels pw) (steps y ph))"
proof (induction pixels pw ph rng y "(ps, k)" arbitrary: ps k rule: scan_rows.induct)
  case (1 pixels pw ph rng y ps k)
  show ?case
  proof (cases "y < ph")
    case False
    then show ?thesis by (simp add: scan_rows.simps steps.simps)
  next
    case True
    obtain ps' k' where r: "scan_row pixels pw rng y 0 (ps, k) = (ps', k')"
      by (cases "scan_row pixels pw rng y 0 (ps, k)")
    have h: "map home ps' = map home ps @ row_homes pixels pw y"
      using scan_row_homes [of pixels pw rng y 0 ps k] by (simp add: r row_homes_def)
    from True r 1(1) [of ps' k'] show ?thesis
      by (subst scan_rows.simps, subst steps.simps) (simp add: h)
  qed
qed

lemma steps_set: "set (steps x n) = {x'. x \<le> x' \<and> x' < n \<and> (x' - x) mod SAMPLE_STEP = 0}"
proof (induction x n rule: steps.induct)
  case (1 x n)
  show ?case
  proof (cases "x < n")
    case False
    then show ?thesis by (subst steps.simps) auto
  next
    case True
    have "{x'. x \<le> x' \<and> x' < n \<and> (x' - x) mod SAMPLE_STEP = 0}
        = insert x {x'. x + SAMPLE_STEP \<le> x' \<and> x' < n \<and> (x' - (x + SAMPLE_STEP)) mod SAMPLE_STEP = 0}"
      using True unfolding SAMPLE_STEP_def by (auto; presburger)
    with True 1 show ?thesis by (subst steps.simps) simp
  qed
qed

lemma steps_distinct: "distinct (steps x n)"
proof (induction x n rule: steps.induct)
  case (1 x n)
  show ?case
  proof (cases "x < n")
    case False
    then show ?thesis by (subst steps.simps) simp
  next
    case True
    have "x \<notin> set (steps (x + SAMPLE_STEP) n)"
      by (simp add: steps_set SAMPLE_STEP_def)
    with True 1 show ?thesis by (subst steps.simps) simp
  qed
qed

lemma steps_from_zero: "set (steps 0 n) = {x. x < n \<and> SAMPLE_STEP dvd x}"
  by (simp add: steps_set mod_eq_0_iff_dvd)

lemma concat_rows_product:
  "concat (map (\<lambda>y. map (f y) (filter (P y) xs)) ys)
     = map (\<lambda>(y, x). f y x) (filter (\<lambda>(y, x). P y x) (List.product ys xs))"
  by (induction ys) (simp_all add: filter_map comp_def)

lemma sample_homes:
  "map home (fst (sample_pixels pixels pw ph rng k))
     = map (\<lambda>(y, x). createVector (real x) (real y))
           (filter (\<lambda>(y, x). lit pixels pw x y) (List.product (steps 0 ph) (steps 0 pw)))"
proof -
  have "row_homes pixels pw = (\<lambda>y. map (\<lambda>x. createVector (real x) (real y))
            (filter (\<lambda>x. lit pixels pw x y) (steps 0 pw)))"
    by (simp add: row_homes_def fun_eq_iff)
  then show ?thesis
    by (simp add: sample_pixels_def scan_rows_homes concat_rows_product)
qed

lemma createVector_inj: "inj_on (\<lambda>(y, x). createVector (real x) (real y)) A"
  by (auto simp add: inj_on_def createVector_def)

lemma sample_homes_distinct: "distinct (map home (fst (sample_pixels pixels pw ph rng k)))"
  unfolding sample_homes
  by (simp add: distinct_map createVector_inj distinct_product steps_distinct)

lemma sample_homes_set:
  "home ` set (fst (sample_pixels pixels pw ph rng k))
     = {createVector (real x) (real y) | x y. on_grid pw ph x y \<and> lit pixels pw x y}"
proof -
  have "home ` set (fst (sample_pixels pixels pw ph rng k))
      = set (map home (fst (sample_pixels pixels pw ph rng k)))" by simp
  also have "\<dots> = {createVector (real x) (real y) | x y. on_grid pw ph x y \<and> lit pixels pw x y}"
    unfolding sample_homes by (auto simp add: steps_from_zero on_grid_def)
  finally show ?thesis .
qed

lemma makeParticle_jittered:
  assumes "0 \<le> rng k" "rng k < 1"
  shows "jittered (fst (makeParticle rng k x y))"
proof -
  define j where "j = random2 (- 2) 2 (rng k)"
  have "- 2 \<le> j" "j < 2" using assms by (simp_all add: j_def random2_def)
  moreover have "pos (fst (makeParticle rng k x y))
      = \<lparr>vx = vx (home (fst (makeParticle rng k x y))) + j,
         vy = vy (home (fst (makeParticle rng k x y))) + j\<rparr>"
    by (simp add: makeParticle_def Let_def createVector_def j_def)
  ultimately show ?thesis unfolding jittered_def by blast
qed

lemma scan_row_inv:
  "(\<And>k x. Q (fst (makeParticle rng k x y))) \<Longrightarrow> \<forall>p \<in> set ps. Q p
     \<Longrightarrow> \<forall>p \<in> set (fst (scan_row pixels pw rng y x (ps, k))). Q p"
proof (induction pixels pw rng y x "(ps, k)" arbitrary: ps k rule: scan_row.induct)
  case (1 pixels pw rng y x ps k)
  show ?case
  proof (cases "x < pw")
    case False
    with 1(3) show ?thesis by (simp add: scan_row.simps)
  next
    case True
    show ?thesis
    proof (cases "lit pixels pw x y")
      case False
      with True 1(1) [of ps k] 1(2,3) show ?thesis
        by (subst scan_row.simps) simp
    next
      case lit: True
      obtain p k' where m: "makeParticle rng k x y = (p, k')" by (cases "makeParticle rng k x y")
      have "Q p" using 1(2) [of k x] m by simp
      with 1(3) have "\<forall>q \<in> set (ps @ [p]). Q q" by simp
      with True lit m 1(1) [of "ps @ [p]" k'] 1(2) show ?thesis
        by (subst scan_row.simps) simp
    qed
  qed
qed

lemma scan_rows_inv:
  "(\<And>k x y. Q (fst (makeParticle rng k x y))) \<Longrightarrow> \<forall>p \<in> set ps. Q p
     \<Longrightarrow> \<forall>p \<in> set (fst (scan_rows pixels pw ph rng y (ps, k))). Q p"
proof (induction pixels pw ph rng y "(ps, k)" arbitrary: ps k rule: scan_rows.induct)
  case (1 pixels pw ph rng y ps k)
  show ?case
  proof (cases "y < ph")
    case False
    with 1(3) show ?thesis by (simp add: scan_rows.simps)
  next
    case True
    obtain ps' k' where r: "scan_row pixels pw rng y 0 (ps, k) = (ps', k')"
      by (cases "scan_row pixels pw rng y 0 (ps, k)")
    have "\<forall>p \<in> set (fst (scan_row pixels pw rng y 0 (ps, k))). Q p"
      using 1(2) 1(3) by (rule scan_row_inv)
    then have "\<forall>p \<in> set ps'. Q p" by (simp add: r)
    with True r 1(1) [of ps' k'] 1(2) show ?thesis
      by (subst scan_rows.simps) simp
  qed
qed

lemma sample_inv:
  "(\<And>k x y. Q (fst (makeParticle rng k x y)))
     \<Longrightarrow> \<forall>p \<in> set (fst (sample_pixels pixels pw ph rng k)). Q p"
  unfolding sample_pixels_def by (rule scan_rows_inv) simp_all

lemma pixel_index_bound:
  assumes "x < pw" "y < (ph::nat)"
  shows "4 * (y * pw + x) + 3 < 4 * pw * ph"
proof -
  define a where "a = y * pw + x"
  define b where "b = ph * pw"
  have "y * pw + x < y * pw + pw" using assms(1) by simp
  also have "\<dots> = (y + 1) * pw" by simp
  also have "\<dots> \<le> ph * pw" using assms(2) by (intro mult_le_mono1) simp
  finally have "a < b" by (simp add: a_def b_def)
  then have "4 * a + 3 < 4 * b" by simp
  then show ?thesis by (simp add: a_def b_def ac_simps)
qed

lemma lit_in_range:
  assumes "length pixels = 4 * pw * ph" "x < pw" "y < ph"
  shows "lit pixels pw x y
     = (pixels ! (4 * (y * pw + x) + 3) > 10
        \<and> pixels ! (4 * (y * pw + x)) + pixels ! (4 * (y * pw + x) + 1)
            + pixels ! (4 * (y * pw + x) + 2) > 500)"
proof -
  have "4 * (y * pw + x) + 3 < length pixels"
    using pixel_index_bound [OF assms(2,3)] assms(1) by simp
  then show ?thesis by (simp add: lit_def Let_def pixel_at_def)
qed

lemma steps_0_12: "steps 0 12 = [0, 6]"
  by (simp add: steps.simps SAMPLE_STEP_def)

lemma steps_0_7: "steps 0 7 = [0, 6]"
  by (simp add: steps.simps SAMPLE_STEP_def)

lemma build_particles:
  "particles (buildTextParticles raster rng s)
     = fst (sample_pixels (raster (DISPLAY_TEXT s) (width s) (height s))
              (width s) (height s) rng (drawn s))"
  by (simp add: buildTextParticles_def Let_def split_beta)

text \<open>
  Claim C6 says that for a canvas of fixed dimensions and a non-empty text the sampler
  produces a non-empty particle set. The sampler makes a particle only for a lit pixel on
  its grid of every sixth row and column: on a 12 by 12 buffer in which the text lit the
  pixel \<open>(3, 3)\<close> only, the four visited pixels are dark and the particle list is empty,
  with the text \<open>56\<close> on display. On a canvas of width 0 the loops visit no pixel at all.
\<close>

theorem sampler_may_find_no_particle:
  "DISPLAY_TEXT (initial\<lparr>width := 12, height := 12\<rparr>) \<noteq> []
    \<and> lit ((replicate (4 * 12 * 12) 0)[156 := 255, 157 := 255, 158 := 255, 159 := 255]) 12 3 3
    \<and> particles (buildTextParticles
          (\<lambda>t w h. (replicate (4 * w * h) 0)[156 := 255, 157 := 255, 158 := 255, 159 := 255])
          (\<lambda>i. 1 / 4) (initial\<lparr>width := 12, height := 12\<rparr>)) = []
    \<and> particles (buildTextParticles (\<lambda>t w h. replicate (4 * w * h) 255)
          (\<lambda>i. 1 / 4) (initial\<lparr>width := 0, height := 12\<rparr>)) = []"
proof -
  have "map home (fst (sample_pixels
          ((replicate (4 * 12 * 12) 0)[156 := 255, 157 := 255, 158 := 255, 159 := 255])
          12 12 (\<lambda>i. 1 / 4) 0)) = []"
    by (simp add: sample_homes steps_0_12 lit_def pixel_at_def)
  then have a: "fst (sample_pixels
          ((replicate (4 * 12 * 12) 0)[156 := 255, 157 := 255, 158 := 255, 159 := 255])
          12 12 (\<lambda>i. 1 / 4) 0) = []"
    by simp
  have "steps 0 0 = []" by (simp add: steps.simps)
  then have "map home (fst (sample_pixels [] 0 12 (\<lambda>i. 1 / 4) 0)) = []"
    by (simp add: sample_homes steps_0_12)
  then have b: "fst (sample_pixels [] 0 12 (\<lambda>i. 1 / 4) 0) = []"
    by simp
  have c: "lit ((replicate (4 * 12 * 12) 0)[156 := 255, 157 := 255, 158 := 255, 159 := 255]) 12 3 3"
    by (simp add: lit_def pixel_at_def)
  from a b c show ?thesis
    by (simp add: build_particles initial_def)
qed

text \<open>
  Claim C6, amended. For a buffer of fixed dimensions, the sampler visits the pixels whose
  two coordinates are multiples of the step 6, and makes one particle for each visited
  pixel whose alpha exceeds 10 and whose red, green and blue sum exceeds 500, with its
  home at that pixel: the homes are distinct, lie within the bounds of the canvas, and
  each position is the home moved by one jitter value in \<open>[-2, 2)\<close> on both axes (the
  random source being in \<open>[0, 1)\<close>). The particle set is non-empty exactly when a visited
  pixel is lit.
\<close>

theorem sampler_particles:
  assumes "\<forall>i. 0 \<le> rng i \<and> rng i < 1"
  shows "home ` set (fst (sample_pixels pixels pw ph rng k))
        = {createVector (real x) (real y) | x y. on_grid pw ph x y \<and> lit pixels pw x y}
    \<and> distinct (map home (fst (sample_pixels pixels pw ph rng k)))
    \<and> (fst (sample_pixels pixels pw ph rng k) \<noteq> []
         \<longleftrightarrow> (\<exists>x y. on_grid pw ph x y \<and> lit pixels pw x y))
    \<and> (\<forall>p \<in> set (fst (sample_pixels pixels pw ph rng k)).
          0 \<le> vx (home p) \<and> vx (home p) < real pw \<and> 0 \<le> vy (home p) \<and> vy (home p) < real ph)
    \<and> (\<forall>p \<in> set (fst (sample_pixels pixels pw ph rng k)). jittered p)
    \<and> (length pixels = 4 * pw * ph \<longrightarrow>
          (\<forall>x y. x < pw \<and> y < ph \<longrightarrow>
             lit pixels pw x y
               = (pixels ! (4 * (y * pw + x) + 3) > 10
                  \<and> pixels ! (4 * (y * pw + x)) + pixels ! (4 * (y * pw + x) + 1)
                      + pixels ! (4 * (y * pw + x) + 2) > 500)))
    \<and> particles (buildTextParticles raster rng s)
        = fst (sample_pixels (raster (DISPLAY_TEXT s) (width s) (height s))
                 (width s) (height s) rng (drawn s))"
proof -
  define ps where "ps = fst (sample_pixels pixels pw ph rng k)"
  have a: "home ` set ps
        = {createVector (real x) (real y) | x y. on_grid pw ph x y \<and> lit pixels pw x y}"
    unfolding ps_def by (rule sample_homes_set)
  have b: "distinct (map home ps)" unfolding ps_def by (rule sample_homes_distinct)
  have c: "ps \<noteq> [] \<longleftrightarrow> (\<exists>x y. on_grid pw ph x y \<and> lit pixels pw x y)"
  proof -
    have "ps \<noteq> [] \<longleftrightarrow> home ` set ps \<noteq> {}" by simp
    also have "\<dots> \<longleftrightarrow> (\<exists>x y. on_grid pw ph x y \<and> lit pixels pw x y)"
      unfolding a by blast
    finally show ?thesis .
  qed
  have d: "\<forall>p \<in> set ps.
          0 \<le> vx (home p) \<and> vx (home p) < real pw \<and> 0 \<le> vy (home p) \<and> vy (home p) < real ph"
  proof
    fix p assume "p \<in> set ps"
    then have "home p \<in> home ` set ps" by simp
    with a obtain x y where "home p = createVector (real x) (real y)" "on_grid pw ph x y"
      by blast
    then show "0 \<le> vx (home p) \<and> vx (home p) < real pw \<and> 0 \<le> vy (home p) \<and> vy (home p) < real ph"
      by (simp add: createVector_def on_grid_def)
  qed
  have e: "\<forall>p \<in> set ps. jittered p"
    unfolding ps_def
  proof (rule sample_inv)
    fix k x y
    from assms have "0 \<le> rng k" "rng k < 1" by simp_all
    then show "jittered (fst (makeParticle rng k x y))" by (rule makeParticle_jittered)
  qed
  have f: "length pixels = 4 * pw * ph \<longrightarrow>
          (\<forall>x y. x < pw \<and> y < ph \<longrightarrow>
             lit pixels pw x y
               = (pixels ! (4 * (y * pw + x) + 3) > 10
                  \<and> pixels ! (4 * (y * pw + x)) + pixels ! (4 * (y * pw + x) + 1)
                      + pixels ! (4 * (y * pw + x) + 2) > 500))"
    using lit_in_range by blast
  from a b c d e f build_particles [of raster rng s] show ?thesis
    unfolding ps_def by blast
qed

theorem sampler_particles_witness:
  "(\<forall>i. (0::real) \<le> (\<lambda>i. 1 / 4) i \<and> (\<lambda>i. 1 / 4 :: real) i < 1)
    \<and> length (replicate (4 * 7 * 7) (255::nat)) = 4 * 7 * 7
    \<and> lit (replicate (4 * 7 * 7) 255) 7 6 6
    \<and> fst (sample_pixels (replicate (4 * 7 * 7) 255) 7 7 (\<lambda>i. 1 / 4) 0) \<noteq> []
    \<and> distinct (map home (fst (sample_pixels (replicate (4 * 7 * 7) 255) 7 7 (\<lambda>i. 1 / 4) 0)))
    \<and> map home (fst (sample_pixels (replicate (4 * 7 * 7) 255) 7 7 (\<lambda>i. 1 / 4) 0))
        = [createVector 0 0, createVector 6 0, createVector 0 6, createVector 6 6]
    \<and> map pos (fst (sample_pixels (replicate (4 * 7 * 7) 255) 7 7 (\<lambda>i. 1 / 4) 0))
        = [createVector (- 1) (- 1), createVector 5 (- 1), createVector (- 1) 5, createVector 5 5]"
proof -
  note th = sampler_particles [of "\<lambda>i. 1 / 4" "replicate (4 * 7 * 7) 255" 7 7 0]
  have r: "\<forall>i. (0::real) \<le> (\<lambda>i. 1 / 4) i \<and> (\<lambda>i. 1 / 4 :: real) i < 1" by simp
  have l: "length (replicate (4 * 7 * 7) (255::nat)) = 4 * 7 * 7" by simp
  from th [OF r] l
  have "(6::nat) < 7 \<and> (6::nat) < 7 \<longrightarrow>
      lit (replicate (4 * 7 * 7) 255) 7 6 6
        = (replicate (4 * 7 * 7) (255::nat) ! (4 * (6 * 7 + 6) + 3) > 10
           \<and> replicate (4 * 7 * 7) (255::nat) ! (4 * (6 * 7 + 6))
               + replicate (4 * 7 * 7) 255 ! (4 * (6 * 7 + 6) + 1)
               + replicate (4 * 7 * 7) 255 ! (4 * (6 * 7 + 6) + 2) > 500)"
    by blast
  then have li: "lit (replicate (4 * 7 * 7) 255) 7 6 6" by simp
  have g: "on_grid 7 7 6 6" by (simp add: on_grid_def SAMPLE_STEP_def)
  from th [OF r] g li
  have ne: "fst (sample_pixels (replicate (4 * 7 * 7) 255) 7 7 (\<lambda>i. 1 / 4) 0) \<noteq> []"
    by blast
  from th [OF r]
  have di: "distinct (map home (fst (sample_pixels (replicate (4 * 7 * 7) 255) 7 7 (\<lambda>i. 1 / 4) 0)))"
    by blast
  have h: "map home (fst (sample_pixels (replicate (4 * 7 * 7) 255) 7 7 (\<lambda>i. 1 / 4) 0))
        = [createVector 0 0, createVector 6 0, createVector 0 6, createVector 6 6]"
    by (simp add: sample_homes steps_0_7 lit_def pixel_at_def)
  have p: "map pos (fst (sample_pixels (replicate (4 * 7 * 7) 255) 7 7 (\<lambda>i. 1 / 4) 0))
        = [createVector (- 1) (- 1), createVector 5 (- 1), createVector (- 1) 5, createVector 5 5]"
    by (simp add: sample_pixels_def scan_rows.simps scan_row.simps SAMPLE_STEP_def lit_def
          pixel_at_def makeParticle_def random2_def Let_def)
  from r l li ne di h p show ?thesis by blast
qed

section \<open>Properties of the build key and the rebuilds\<close>

lemma digit_value_digit_char: "d < 10 \<Longrightarrow> digit_value (digit_char d) = d"
proof -
  assume "d < 10"
  then have "d = 0 \<or> d = 1 \<or> d = 2 \<or> d = 3 \<or> d = 4 \<or> d = 5 \<or> d = 6 \<or> d = 7 \<or> d = 8 \<or> d = 9"
    by arith
  then show ?thesis
    by (elim disjE) (simp_all add: digit_char_def digit_value_def)
qed

lemma digits_value_snoc: "digits_value (ds @ [c]) = 10 * digits_value ds + digit_value c"
  by (simp add: digits_value_def)

lemma digits_value_dec: "digits_value (dec n) = n"
proof (induction n rule: dec.induct)
  case (1 n)
  show ?case
  proof (cases "n < 10")
    case True
    then show ?thesis
      by (subst dec.simps) (simp add: digits_value_def digit_value_digit_char)
  next
    case False
    with 1 have "digits_value (dec (n div 10)) = n div 10" by simp
    with False show ?thesis
      by (subst dec.simps) (simp add: digits_value_snoc digit_value_digit_char)
  qed
qed

lemma dec_inj: "dec a = dec b \<Longrightarrow> a = b"
proof -
  assume "dec a = dec b"
  then have "digits_value (dec a) = digits_value (dec b)" by simp
  then show ?thesis by (simp only: digits_value_dec)
qed

lemma dec_no_separator: "CHR ''x'' \<notin> set (dec n)" "CHR ''|'' \<notin> set (dec n)"
proof -
  have "c \<notin> set (dec n)" if "\<And>d. digit_char d \<noteq> c" for c
  proof
    assume "c \<in> set (dec n)"
    with dec_digits [of n] obtain d where "c = digit_char d" by blast
    with that [of d] show False by simp
  qed
  then show "CHR ''x'' \<notin> set (dec n)" "CHR ''|'' \<notin> set (dec n)"
    by (simp_all add: digit_char_def)
qed

lemma split_at_first:
  "c \<notin> set a \<Longrightarrow> c \<notin> set a' \<Longrightarrow> a @ c # u = a' @ c # u' \<Longrightarrow> a = a' \<and> u = u'"
proof (induction a arbitrary: a')
  case Nil
  then show ?case by (cases a') auto
next
  case (Cons x a)
  then show ?case by (cases a') auto
qed

lemma split_at_last:
  assumes "c \<notin> set a" "c \<notin> set a'" "u @ c # a = u' @ c # a'"
  shows "u = u' \<and> a = a'"
proof -
  from assms(3) have "rev (u @ c # a) = rev (u' @ c # a')" by simp
  then have "rev a @ c # rev u = rev a' @ c # rev u'" by simp
  moreover have "c \<notin> set (rev a)" "c \<notin> set (rev a')" using assms(1,2) by simp_all
  ultimately have "rev a = rev a' \<and> rev u = rev u'"
    by (intro split_at_first)
  then show ?thesis by simp
qed

lemma buildKey_of_inj:
  "(buildKey_of t w h = buildKey_of t' w' h') = (t = t' \<and> w = w' \<and> h = h')"
proof
  assume eq: "buildKey_of t w h = buildKey_of t' w' h'"
  then have "(t @ ''|'' @ dec w) @ CHR ''x'' # dec h = (t' @ ''|'' @ dec w') @ CHR ''x'' # dec h'"
    by (simp add: buildKey_of_def)
  with dec_no_separator(1) [of h] dec_no_separator(1) [of h']
  have 1: "t @ ''|'' @ dec w = t' @ ''|'' @ dec w' \<and> dec h = dec h'"
    by (intro split_at_last)
  then have "t @ CHR ''|'' # dec w = t' @ CHR ''|'' # dec w'" by simp
  with dec_no_separator(2) [of w] dec_no_separator(2) [of w']
  have 2: "t = t' \<and> dec w = dec w'"
    by (intro split_at_last)
  from 1 2 show "t = t' \<and> w = w' \<and> h = h'" by (simp add: dec_inj)
next
  assume "t = t' \<and> w = w' \<and> h = h'"
  then show "buildKey_of t w h = buildKey_of t' w' h'" by simp
qed

lemma draw_builds:
  "builds (fst (draw raster rng noise ms ms2 s))
     = builds s + (if buildKey s = lastBuildKey s then 0 else 1)"
  by (simp add: draw_state Let_def build_fields)

lemma draw_up_to_date:
  "lastBuildKey (fst (draw raster rng noise ms ms2 s)) = buildKey (fst (draw raster rng noise ms ms2 s))"
  by (simp add: draw_state Let_def build_fields buildKey_def)

lemma resized_state:
  "fst (windowResized raster rng noise ms ms2 ww wh s)
     = buildTextParticles raster rng
         (fst (draw raster rng noise ms ms2 (s\<lparr>width := ww, height := wh\<rparr>)))"
  by (simp add: windowResized_def resizeCanvas_def split_beta)

lemma resized_builds:
  "builds (fst (windowResized raster rng noise ms ms2 ww wh s))
     = builds s + (if buildKey_of (DISPLAY_TEXT s) ww wh = lastBuildKey s then 1 else 2)"
  "lastBuildKey (fst (windowResized raster rng noise ms ms2 ww wh s))
     = buildKey (fst (windowResized raster rng noise ms ms2 ww wh s))"
  "width (fst (windowResized raster rng noise ms ms2 ww wh s)) = ww"
  "height (fst (windowResized raster rng noise ms ms2 ww wh s)) = wh"
  "DISPLAY_TEXT (fst (windowResized raster rng noise ms ms2 ww wh s)) = DISPLAY_TEXT s"
  by (simp_all add: resized_state build_fields build_up_to_date draw_builds draw_state Let_def
      buildKey_def)

lemma keyTyped_builds:
  "builds (keyTyped raster rng key s) = builds s + (if key = ''r'' then 1 else 0)"
  "lastBuildKey (keyTyped raster rng ''r'' s) = buildKey (keyTyped raster rng ''r'' s)"
  by (simp_all add: keyTyped_def Let_def build_fields buildKey_def)

lemma setup_builds:
  "builds (setup_sketch raster rng q ww wh ms s) = builds s + 1"
  "lastBuildKey (setup_sketch raster rng q ww wh ms s) = buildKey (setup_sketch raster rng q ww wh ms s)"
  "width (setup_sketch raster rng q ww wh ms s) = ww"
  "height (setup_sketch raster rng q ww wh ms s) = wh"
   apply (simp_all add: setup_sketch_def Let_def build_fields buildKey_def)
  apply (simp add: getParams_def Let_def split: option.splits js_number.splits)
  done

lemma dec_56: "dec 56 = ''56''"
  by (simp add: dec.simps digit_char_def)

lemma dec_12: "dec 12 = ''12''"
  by (simp add: dec.simps digit_char_def)

text \<open>
  Claim C3 says that a rebuild never occurs while the build key is unchanged, and that a
  change forces exactly one rebuild. The key handler rebuilds whenever \<open>r\<close> is typed, also
  when the random number it draws is the number on display: after \<open>setup\<close> on a 12 by 12
  canvas with the text \<open>56\<close>, a random value of \<open>111 / 19996\<close> gives \<open>floor(56.5) = 56\<close>,
  so the text, the size and the key stay as they were and the particles are built a second
  time. A resize of that canvas to 18 by 12 builds twice: once in the frame that
  \<open>resizeCanvas\<close> runs, which finds the key changed, and once more in the handler.
\<close>

theorem rebuild_with_unchanged_key:
  "DISPLAY_TEXT (keyTyped (\<lambda>t w h. replicate (4 * w * h) 255) (\<lambda>i. 111 / 19996) ''r''
       (setup_sketch (\<lambda>t w h. replicate (4 * w * h) 255) (\<lambda>i. 111 / 19996) [] 12 12 0 initial))
     = DISPLAY_TEXT
         (setup_sketch (\<lambda>t w h. replicate (4 * w * h) 255) (\<lambda>i. 111 / 19996) [] 12 12 0 initial)
   \<and> buildKey (keyTyped (\<lambda>t w h. replicate (4 * w * h) 255) (\<lambda>i. 111 / 19996) ''r''
       (setup_sketch (\<lambda>t w h. replicate (4 * w * h) 255) (\<lambda>i. 111 / 19996) [] 12 12 0 initial))
     = ''56|12x12''
   \<and> buildKey
         (setup_sketch (\<lambda>t w h. replicate (4 * w * h) 255) (\<lambda>i. 111 / 19996) [] 12 12 0 initial)
     = ''56|12x12''
   \<and> builds
         (setup_sketch (\<lambda>t w h. replicate (4 * w * h) 255) (\<lambda>i. 111 / 19996) [] 12 12 0 initial)
     = 1
   \<and> builds (keyTyped (\<lambda>t w h. replicate (4 * w * h) 255) (\<lambda>i. 111 / 19996) ''r''
       (setup_sketch (\<lambda>t w h. replicate (4 * w * h) 255) (\<lambda>i. 111 / 19996) [] 12 12 0 initial))
     = 2
   \<and> builds (fst (windowResized (\<lambda>t w h. replicate (4 * w * h) 255) (\<lambda>i. 111 / 19996)
       (\<lambda>x y z. 1 / 2) 1000 1000 18 12
       (setup_sketch (\<lambda>t w h. replicate (4 * w * h) 255) (\<lambda>i. 111 / 19996) [] 12 12 0 initial)))
     = 3"
proof -
  have f: "\<lfloor>(113::real) / 2\<rfloor> = 56" by simp
  have q: "getParams [] initial = initial"
    by (simp add: getParams_def searchParams_get_def)
  have n: "nat \<lfloor>random2 1 9999 (111 / 19996)\<rfloor> = 56"
    by (simp add: random2_def f)
  have k: "DISPLAY_TEXT (keyTyped (\<lambda>t w h. replicate (4 * w * h) 255) (\<lambda>i. 111 / 19996) ''r''
       (setup_sketch (\<lambda>t w h. replicate (4 * w * h) 255) (\<lambda>i. 111 / 19996) [] 12 12 0 initial))
     = DISPLAY_TEXT
         (setup_sketch (\<lambda>t w h. replicate (4 * w * h) 255) (\<lambda>i. 111 / 19996) [] 12 12 0 initial)
   \<and> buildKey (keyTyped (\<lambda>t w h. replicate (4 * w * h) 255) (\<lambda>i. 111 / 19996) ''r''
       (setup_sketch (\<lambda>t w h. replicate (4 * w * h) 255) (\<lambda>i. 111 / 19996) [] 12 12 0 initial))
     = ''56|12x12''
   \<and> buildKey
         (setup_sketch (\<lambda>t w h. replicate (4 * w * h) 255) (\<lambda>i. 111 / 19996) [] 12 12 0 initial)
     = ''56|12x12''
   \<and> builds
         (setup_sketch (\<lambda>t w h. replicate (4 * w * h) 255) (\<lambda>i. 111 / 19996) [] 12 12 0 initial)
     = 1
   \<and> builds (keyTyped (\<lambda>t w h. replicate (4 * w * h) 255) (\<lambda>i. 111 / 19996) ''r''
       (setup_sketch (\<lambda>t w h. replicate (4 * w * h) 255) (\<lambda>i. 111 / 19996) [] 12 12 0 initial))
     = 2"
    by (simp add: keyTyped_def setup_sketch_def Let_def q [unfolded initial_def] n build_fields
        buildKey_def buildKey_of_def initial_def dec_56 dec_12)
  define s0 where
    "s0 = setup_sketch (\<lambda>t w h. replicate (4 * w * h) 255) (\<lambda>i. 111 / 19996) [] 12 12 0 initial"
  have l: "lastBuildKey s0 = buildKey_of (DISPLAY_TEXT s0) 12 12"
    unfolding s0_def by (simp add: setup_builds buildKey_def)
  have b: "builds s0 = 1"
    unfolding s0_def by (simp add: setup_builds initial_def)
  have r: "builds (fst (windowResized (\<lambda>t w h. replicate (4 * w * h) 255) (\<lambda>i. 111 / 19996)
       (\<lambda>x y z. 1 / 2) 1000 1000 18 12 s0)) = 3"
    by (simp add: resized_builds(1) l b buildKey_of_inj)
  from k r show ?thesis unfolding s0_def by blast
qed

text \<open>
  Claim C3, amended. The frame callback rebuilds exactly when the build key differs from
  the key of the last build, so it never rebuilds while the key is unchanged. The key is
  injective in the text, the width and the height, so any change of one of them changes
  the key. \<open>setup\<close> and the key \<open>r\<close> each rebuild once at once, whether or not anything
  changed. A resize runs one frame at the new size, which rebuilds when the key changed,
  and then rebuilds once more: two rebuilds for a changed size, one for an unchanged one.
  Each of them leaves the stored key equal to the current one, as every frame does, so
  the frame that follows does not rebuild again.
\<close>

theorem rebuild_on_key_change:
  "builds (fst (draw raster rng noise ms ms2 s))
      = builds s + (if buildKey s = lastBuildKey s then 0 else 1)
    \<and> (buildKey_of t w h = buildKey_of t' w' h') = (t = t' \<and> w = w' \<and> h = h')
    \<and> buildKey s = buildKey_of (DISPLAY_TEXT s) (width s) (height s)
    \<and> builds (fst (windowResized raster rng noise ms ms2 ww wh s))
        = builds s + (if buildKey_of (DISPLAY_TEXT s) ww wh = lastBuildKey s then 1 else 2)
    \<and> builds (fst (resizeCanvas raster rng noise ms ms2 ww wh s))
        = builds s + (if buildKey_of (DISPLAY_TEXT s) ww wh = lastBuildKey s then 0 else 1)
    \<and> builds (keyTyped raster rng key s) = builds s + (if key = ''r'' then 1 else 0)
    \<and> builds (setup_sketch raster rng q ww wh ms s) = builds s + 1
    \<and> lastBuildKey (fst (windowResized raster rng noise ms ms2 ww wh s))
        = buildKey (fst (windowResized raster rng noise ms ms2 ww wh s))
    \<and> lastBuildKey (keyTyped raster rng ''r'' s) = buildKey (keyTyped raster rng ''r'' s)
    \<and> lastBuildKey (setup_sketch raster rng q ww wh ms s)
        = buildKey (setup_sketch raster rng q ww wh ms s)
    \<and> lastBuildKey (fst (draw raster rng noise ms ms2 s)) = buildKey (fst (draw raster rng noise ms ms2 s))
    \<and> builds (fst (draw raster rng noise ms' ms2' (fst (windowResized raster rng noise ms ms2 ww wh s))))
        = builds (fst (windowResized raster rng noise ms ms2 ww wh s))
    \<and> builds (fst (draw raster rng noise ms ms2 (keyTyped raster rng ''r'' s))) = builds s + 1
    \<and> builds (fst (draw raster rng noise ms ms2 (setup_sketch raster rng q ww wh ms s)))
        = builds s + 1
    \<and> builds (fst (draw raster rng noise ms' ms2' (fst (draw raster rng noise ms ms2 s))))
        = builds (fst (draw raster rng noise ms ms2 s))"
proof -
  have a: "builds (fst (draw raster rng noise ms' ms2' (fst (windowResized raster rng noise ms ms2 ww wh s))))
        = builds (fst (windowResized raster rng noise ms ms2 ww wh s))"
    by (simp add: draw_builds [of raster rng noise ms' ms2'] resized_builds(2))
  have b: "builds (fst (draw raster rng noise ms ms2 (keyTyped raster rng ''r'' s))) = builds s + 1"
    by (simp add: draw_builds keyTyped_builds)
  have c: "builds (fst (draw raster rng noise ms' ms2' (fst (draw raster rng noise ms ms2 s))))
        = builds (fst (draw raster rng noise ms ms2 s))"
    by (simp add: draw_builds [of raster rng noise ms' ms2'] draw_up_to_date)
  have d: "buildKey s = buildKey_of (DISPLAY_TEXT s) (width s) (height s)"
    by (simp add: buildKey_def)
  have e: "builds (fst (resizeCanvas raster rng noise ms ms2 ww wh s))
        = builds s + (if buildKey_of (DISPLAY_TEXT s) ww wh = lastBuildKey s then 0 else 1)"
    by (simp add: resizeCanvas_def draw_builds buildKey_def)
  have f: "builds (fst (draw raster rng noise ms ms2 (setup_sketch raster rng q ww wh ms s)))
        = builds s + 1"
    by (simp add: draw_builds setup_builds(1,2))
  from a b c d e f draw_builds [of raster rng noise ms ms2 s] buildKey_of_inj [of t w h t' w' h']
    resized_builds(1,2) [of raster rng noise ms ms2 ww wh s]
    keyTyped_builds(1) [of raster rng key s] keyTyped_builds(2) [of raster rng s]
    setup_builds(1,2) [of raster rng q ww wh ms s] draw_up_to_date [of raster rng noise ms ms2 s]
  show ?thesis by blast
qed

section \<open>Properties of the startup parameters\<close>

lemma double_bound: "(1000000::real) < 2 ^ 1024 - 2 ^ 970"
proof -
  have e: "(2::real) ^ 1024 = 2 ^ 54 * 2 ^ 970" by (simp only: power_add [symmetric]) simp
  have "(1000000::real) * 1 < (2 ^ 54 - 1) * 2 ^ 970"
    by (intro mult_less_le_imp_less) simp_all
  also have "\<dots> = 2 ^ 1024 - 2 ^ 970" by (simp only: e left_diff_distrib mult_1)
  finally show ?thesis by simp
qed

lemma to_number_small: "\<bar>v\<bar> \<le> 1000000 \<Longrightarrow> to_number v = Num v"
  using double_bound by (simp add: to_number_def)

lemmas parse_defs = Let_def is_space_def is_digit_def drop_sign_def is_sign_def
      sign_of_def digits_value_def digit_value_def to_number_small exponent_of_def pow10_def

lemma parseInt10_examples:
  "parseInt10 ''3.7'' = Num 3" "parseInt10 ''12abc'' = Num 12" "parseInt10 ''600'' = Num 600"
  "parseInt10 '' -5'' = Num (- 5)" "parseInt10 ''abc'' = NaN" "parseInt10 ''0'' = Num 0"
  by (simp_all add: parseInt10_def parse_defs)

lemma parseFloat_examples:
  "parseFloat ''0.5'' = Num (1 / 2)" "parseFloat ''8'' = Num 8" "parseFloat ''7.5e1s'' = Num 75"
  "parseFloat ''abc'' = NaN" "parseFloat ''Infinity'' = Infinity" "parseFloat ''2.5'' = Num (5 / 2)"
  by (simp_all add: parseFloat_def parse_defs)

lemma trim_examples: "trim '' 137 '' = ''137''" "trim ''  '' = []" "trim '' 7 '' = ''7''"
  by (simp_all add: trim_def is_space_def)

lemma to_number_Num: "to_number v = Num w \<Longrightarrow> w = v"
  by (simp add: to_number_def split: if_splits)

lemma sign_of_cases: "sign_of s = 1 \<or> sign_of s = - 1"
  by (simp add: sign_of_def split: list.splits)

lemma parseInt10_integer: "parseInt10 d = Num v \<Longrightarrow> v \<in> \<int>"
proof -
  assume a: "parseInt10 d = Num v"
  define s where "s = dropWhile is_space d"
  define z where "z = takeWhile is_digit (drop_sign s)"
  from a have "to_number (sign_of s * real (digits_value z)) = Num v"
    by (simp add: parseInt10_def Let_def s_def z_def split: if_splits)
  then have "v = sign_of s * real (digits_value z)" by (rule to_number_Num)
  with sign_of_cases [of s] show ?thesis by auto
qed

lemma getParams_text:
  "DISPLAY_TEXT (getParams q s)
     = (case map_of q ''num'' of
          None \<Rightarrow> DISPLAY_TEXT s
        | Some n \<Rightarrow> if trim n = [] then DISPLAY_TEXT s else trim n)"
  by (simp add: getParams_def searchParams_get_def Let_def split: option.splits js_number.splits)

lemma getParams_run:
  "RUN_SECONDS (getParams q s)
     = (case map_of q ''dur'' of
          None \<Rightarrow> RUN_SECONDS s
        | Some d \<Rightarrow>
            (case parseInt10 d of
               Num v \<Rightarrow> if 0 < v then Some v else RUN_SECONDS s
             | _ \<Rightarrow> RUN_SECONDS s))"
  by (simp add: getParams_def searchParams_get_def Let_def isFinite_def gt_def
      split: option.splits js_number.splits)

lemma getParams_breath:
  "BREATH_SECONDS (getParams q s)
     = (case map_of q ''breath'' of
          None \<Rightarrow> BREATH_SECONDS s
        | Some b \<Rightarrow>
            (case parseFloat b of
               Num v \<Rightarrow> if 1 / 2 < v then v else BREATH_SECONDS s
             | _ \<Rightarrow> BREATH_SECONDS s))"
  by (simp add: getParams_def searchParams_get_def Let_def isFinite_def gt_def
      split: option.splits js_number.splits)

lemma getParams_rest:
  "particles (getParams q s) = particles s \<and> lastBuildKey (getParams q s) = lastBuildKey s
    \<and> startMillis (getParams q s) = startMillis s \<and> width (getParams q s) = width s
    \<and> height (getParams q s) = height s \<and> builds (getParams q s) = builds s
    \<and> drawn (getParams q s) = drawn s"
  by (simp add: getParams_def searchParams_get_def Let_def split: option.splits js_number.splits)

text \<open>
  Claim C8 says that a duration that is not a positive finite integer leaves the run
  unbounded and that accepted values are used exactly. \<open>parseInt\<close> reads the digits at
  the start of the text and ignores the rest, so the duration \<open>3.7\<close> bounds the run at 3
  seconds and \<open>12abc\<close> at 12; the breath value \<open>7.5e1s\<close> gives 75; and the display text
  is used without the white space around it.
\<close>

theorem getParams_reads_prefix:
  "RUN_SECONDS (getParams [(''dur'', ''3.7'')] initial) = Some 3
    \<and> RUN_SECONDS (getParams [(''dur'', ''12abc'')] initial) = Some 12
    \<and> BREATH_SECONDS (getParams [(''breath'', ''7.5e1s'')] initial) = 75
    \<and> DISPLAY_TEXT (getParams [(''num'', '' 7 '')] initial) = ''7''"
  by (simp add: getParams_run getParams_breath getParams_text parseInt10_examples
      parseFloat_examples trim_examples)

text \<open>
  Claim C8, amended. \<open>getParams\<close> returns a state for every query. The display text
  is the trimmed value of \<open>num\<close>, and the default when \<open>num\<close> is missing, empty or white
  space only. The run time is the integer that \<open>parseInt\<close> reads at the start of \<open>dur\<close>
  when there is one and it is positive and finite, and stays unbounded otherwise. The
  half-period is the number that \<open>parseFloat\<close> reads at the start of \<open>breath\<close> when it is
  finite and above 0.5, and the default otherwise. From the initial values the text is
  never empty, the run time is absent or a positive integer and the half-period is above
  0.5; no other variable changes.
\<close>

theorem getParams_fallbacks:
  "DISPLAY_TEXT (getParams q s)
      = (case map_of q ''num'' of
           None \<Rightarrow> DISPLAY_TEXT s
         | Some n \<Rightarrow> if trim n = [] then DISPLAY_TEXT s else trim n)
    \<and> RUN_SECONDS (getParams q s)
      = (case map_of q ''dur'' of
           None \<Rightarrow> RUN_SECONDS s
         | Some d \<Rightarrow>
             (case parseInt10 d of
                Num v \<Rightarrow> if 0 < v then Some v else RUN_SECONDS s
              | _ \<Rightarrow> RUN_SECONDS s))
    \<and> BREATH_SECONDS (getParams q s)
      = (case map_of q ''breath'' of
           None \<Rightarrow> BREATH_SECONDS s
         | Some b \<Rightarrow>
             (case parseFloat b of
                Num v \<Rightarrow> if 1 / 2 < v then v else BREATH_SECONDS s
              | _ \<Rightarrow> BREATH_SECONDS s))
    \<and> DISPLAY_TEXT (getParams q initial) \<noteq> []
    \<and> (RUN_SECONDS (getParams q initial) = None
        \<or> (\<exists>v. RUN_SECONDS (getParams q initial) = Some v \<and> 0 < v \<and> v \<in> \<int>))
    \<and> 1 / 2 < BREATH_SECONDS (getParams q initial)
    \<and> particles (getParams q s) = particles s \<and> lastBuildKey (getParams q s) = lastBuildKey s
    \<and> startMillis (getParams q s) = startMillis s \<and> width (getParams q s) = width s
    \<and> height (getParams q s) = height s"
proof -
  have t: "DISPLAY_TEXT (getParams q initial) \<noteq> []"
    by (simp add: getParams_text initial_def split: option.splits)
  have r: "RUN_SECONDS (getParams q initial) = None
        \<or> (\<exists>v. RUN_SECONDS (getParams q initial) = Some v \<and> 0 < v \<and> v \<in> \<int>)"
  proof (cases "map_of q ''dur''")
    case None
    then show ?thesis by (simp add: getParams_run initial_def)
  next
    case (Some d)
    show ?thesis
    proof (cases "parseInt10 d")
      case (Num v)
      then have "v \<in> \<int>" by (rule parseInt10_integer)
      with Some Num show ?thesis by (simp add: getParams_run initial_def)
    qed (simp_all add: Some getParams_run initial_def)
  qed
  have b: "1 / 2 < BREATH_SECONDS (getParams q initial)"
    by (simp add: getParams_breath initial_def split: option.splits js_number.splits)
  from t r b getParams_text [of q s] getParams_run [of q s] getParams_breath [of q s]
    getParams_rest [of q s]
  show ?thesis by blast
qed

theorem getParams_fallbacks_witness:
  "DISPLAY_TEXT (getParams [(''num'', '' 137 ''), (''dur'', ''600''), (''breath'', ''2.5'')] initial)
      = ''137''
    \<and> RUN_SECONDS (getParams [(''num'', '' 137 ''), (''dur'', ''600''), (''breath'', ''2.5'')] initial)
      = Some 600
    \<and> BREATH_SECONDS (getParams [(''num'', '' 137 ''), (''dur'', ''600''), (''breath'', ''2.5'')] initial)
      = 5 / 2
    \<and> DISPLAY_TEXT (getParams [(''num'', ''  ''), (''dur'', '' -5''), (''breath'', ''0.5'')] initial)
      = ''56''
    \<and> RUN_SECONDS (getParams [(''num'', ''  ''), (''dur'', '' -5''), (''breath'', ''0.5'')] initial)
      = None
    \<and> BREATH_SECONDS (getParams [(''num'', ''  ''), (''dur'', '' -5''), (''breath'', ''0.5'')] initial)
      = 8"
  using getParams_fallbacks [of "[(''num'', '' 137 ''), (''dur'', ''600''), (''breath'', ''2.5'')]" initial]
    getParams_fallbacks [of "[(''num'', ''  ''), (''dur'', '' -5''), (''breath'', ''0.5'')]" initial]
  by (simp add: parseInt10_examples parseFloat_examples trim_examples initial_def)



end
